theory Spec2Isabelle
  imports Complex_Main
begin

section \<open>Numbers and buffers\<close>

text \<open>
  The program computes with JavaScript numbers. A finite number is modelled by the real
  it denotes (the rounding of finite results is not modelled); \<open>None\<close> stands for every
  non-finite value (\<open>NaN\<close>, \<open>Infinity\<close>, \<open>-Infinity\<close>) and for what arithmetic makes of
  \<open>undefined\<close>. Parameters and random numbers are finite numbers. With finite operands
  a division by zero, a logarithm of a non-positive number, an arc cosine outside
  \<open>[-1, 1]\<close> and an overflow leave the finite numbers.
  The arithmetic, \<open>Math.sin\<close>, \<open>Math.cos\<close> and \<open>Math.sqrt\<close> the sources apply to a
  non-finite value yield a non-finite value again; the comparisons and the \<open>Math.min\<close> of
  the galaxy's colour choice, which do not, are written out where they occur.
\<close>

type_synonym jsnum = "real option"

text \<open>A \<open>Float32Array\<close>: a read past the end gives \<open>undefined\<close>, a write past the end
  is ignored (as \<open>list_update\<close> does).\<close>

type_synonym Float32Array = "jsnum list"

definition get :: "Float32Array \<Rightarrow> nat \<Rightarrow> jsnum" where
  "get a i = (if i < length a then a ! i else None)"

text \<open>What a generator returns: \<open>{ positions, colors }\<close>, three entries per particle in
  each buffer; the wave-particle layer adds the index pairs of its connection lines.\<close>

record ParticleSet =
  positions :: Float32Array
  colors :: Float32Array

record WaveParticles_state = ParticleSet +
  connections :: "(nat \<times> nat) list"

text \<open>
  Overflow. A sum, product or quotient of doubles whose exact value has magnitude
  \<open>2 ^ 1024 - 2 ^ 970\<close> or more rounds to an infinity, and a number of magnitude
  \<open>2 ^ 128 - 2 ^ 103\<close> or more is stored into a \<open>Float32Array\<close> as an infinity. \<open>dbl\<close>
  is the result of a double operation with exact value \<open>v\<close>, \<open>f32\<close> what a
  \<open>Float32Array\<close> holds after a number is stored. They are applied in the Great Wave
  displacement and in the galaxy and Great Wave generators, at the operations whose result
  is not bounded by an operand; in the WaveField and WaveParticles
  updates and in the wave-particle generator no overflow is modelled.
\<close>

definition dbl_overflow :: real where
  "dbl_overflow = 2 ^ 1024 - 2 ^ 970"

definition f32_overflow :: real where
  "f32_overflow = 2 ^ 128 - 2 ^ 103"

definition dbl :: "real \<Rightarrow> jsnum" where
  "dbl v = (if \<bar>v\<bar> < dbl_overflow then Some v else None)"

definition f32 :: "jsnum \<Rightarrow> jsnum" where
  "f32 v = (case v of None \<Rightarrow> None
            | Some r \<Rightarrow> if \<bar>r\<bar> < f32_overflow then Some r else None)"

definition js_div :: "real \<Rightarrow> real \<Rightarrow> jsnum" where
  "js_div a b = (if b = 0 then None else dbl (a / b))"

definition js_log :: "real \<Rightarrow> jsnum" where
  "js_log v = (if v \<le> 0 then None else Some (ln v))"

definition js_acos :: "real \<Rightarrow> jsnum" where
  "js_acos v = (if -1 \<le> v \<and> v \<le> 1 then Some (arccos v) else None)"

text \<open>\<open>Math.atan2(y, x)\<close> on finite arguments (signed zeros are not modelled).\<close>

definition atan2 :: "real \<Rightarrow> real \<Rightarrow> real" where
  "atan2 y x =
     (if 0 < x then arctan (y / x)
      else if x < 0 \<and> 0 \<le> y then arctan (y / x) + pi
      else if x < 0 then arctan (y / x) - pi
      else if 0 < y then pi / 2
      else if y < 0 then - (pi / 2)
      else 0)"

section \<open>Per-frame updates\<close>

subsection \<open>The two loop shapes\<close>

text \<open>
  \<^verbatim>\<open>for (let i = 0; i < positions.length; i += 3) {
    const x = positions[i]; const z = positions[i + 2];
    positions[i + 1] = h(x, z); }\<close>
  (WaveField and GreatWaveSurface; \<open>h\<close> is the body's height expression.)
\<close>

function update_by_length ::
  "(jsnum \<Rightarrow> jsnum \<Rightarrow> jsnum) \<Rightarrow> nat \<Rightarrow> Float32Array \<Rightarrow> Float32Array" where
  "update_by_length h i array =
     (if i < length array
      then update_by_length h (i + 3)
             (array[i + 1 := h (get array i) (get array (i + 2))])
      else array)"
  by pat_completeness auto
termination
  by (relation "measure (\<lambda>(h, i, array). length array - i)") auto

declare update_by_length.simps [simp del]

text \<open>
  \<^verbatim>\<open>for (let i = 0; i < count; i++) {
    const i3 = i * 3;
    const x = positions[i3]; const z = positions[i3 + 2];
    positions[i3 + 1] = h(x, z); }\<close>
  (WaveParticles and GreatWave.)
\<close>

function update_by_count ::
  "(jsnum \<Rightarrow> jsnum \<Rightarrow> jsnum) \<Rightarrow> int \<Rightarrow> nat \<Rightarrow> Float32Array \<Rightarrow> Float32Array" where
  "update_by_count h count i array =
     (if int i < count
      then update_by_count h count (i + 1)
             (let i3 = i * 3 in
              array[i3 + 1 := h (get array i3) (get array (i3 + 2))])
      else array)"
  by pat_completeness auto
termination
  by (relation "measure (\<lambda>(h, count, i, array). nat (count - int i))") auto

declare update_by_count.simps [simp del]

subsection \<open>WaveField (MilkyWayVisualization.jsx, useFrame of WaveField)\<close>

definition WaveField_height :: "real \<Rightarrow> real \<Rightarrow> jsnum \<Rightarrow> jsnum \<Rightarrow> jsnum" where
  "WaveField_height time waveIntensity px pz =
     (case (px, pz) of
        (Some x, Some z) \<Rightarrow>
          (let wave1 = sin ((x * 0.1) + time) * 2;
               wave2 = sin ((z * 0.1) + time * 0.6) * 2;
               wave3 = sin ((x * 0.05 + z * 0.05) + time * 0.8) * 3;
               wave4 = sin (sqrt (x * x + z * z) * 0.1 - time * 1.2) * 1.5
           in Some ((wave1 + wave2 + wave3 + wave4) * waveIntensity))
      | _ \<Rightarrow> None)"

text \<open>\<open>mounted\<close> is the guard \<open>meshRef.current && meshRef.current.geometry\<close>.\<close>

definition WaveField_useFrame ::
  "bool \<Rightarrow> real \<Rightarrow> real \<Rightarrow> real \<Rightarrow> Float32Array \<Rightarrow> Float32Array" where
  "WaveField_useFrame mounted elapsedTime waveSpeed waveIntensity array =
     (if mounted
      then (let time = elapsedTime * waveSpeed
            in update_by_length (WaveField_height time waveIntensity) 0 array)
      else array)"

subsection \<open>WaveParticles (MilkyWayVisualization.jsx, first useFrame of WaveParticles)\<close>

definition WaveParticles_height :: "real \<Rightarrow> real \<Rightarrow> jsnum \<Rightarrow> jsnum \<Rightarrow> jsnum" where
  "WaveParticles_height time waveIntensity px pz =
     (case (px, pz) of
        (Some x, Some z) \<Rightarrow>
          (let wave1 = sin ((x * 0.1 + z * 0.1) + time) * waveIntensity;
               wave2 = sin ((x * 0.05 - z * 0.05) + time * 0.6) * (waveIntensity * 0.6);
               wave3 = sin (sqrt (x * x + z * z) * 0.1 - time * 0.8) * (waveIntensity * 0.4)
           in Some (wave1 + wave2 + wave3))
      | _ \<Rightarrow> None)"

definition WaveParticles_useFrame ::
  "bool \<Rightarrow> real \<Rightarrow> real \<Rightarrow> real \<Rightarrow> int \<Rightarrow> WaveParticles_state \<Rightarrow> WaveParticles_state" where
  "WaveParticles_useFrame mounted elapsedTime waveSpeed waveIntensity count s =
     (if mounted
      then (let time = elapsedTime * waveSpeed
            in s\<lparr>positions :=
                   update_by_count (WaveParticles_height time waveIntensity) count 0 (positions s)\<rparr>)
      else s)"

subsection \<open>The Great Wave (GreatWave.jsx, useFrame of GreatWave and of GreatWaveSurface)\<close>

text \<open>The displacement both loops compute from a finite \<open>x\<close>, \<open>z\<close>. With
  \<open>waveLength = 0\<close> the quotient \<open>distance / waveLength\<close> is \<open>Infinity\<close> or \<open>NaN\<close>, its
  sine is \<open>NaN\<close>, and so is the sum; the same holds when \<open>x * x + z * z\<close>, the quotient,
  \<open>time * waveSpeed\<close>, the phase or its multiple of \<open>2 pi\<close> overflows. The two sines are
  at most \<open>1\<close> in magnitude, so of the remaining operations only the final sum can
  overflow.\<close>

definition displacement ::
  "real \<Rightarrow> real \<Rightarrow> real \<Rightarrow> real \<Rightarrow> real \<Rightarrow> real \<Rightarrow> jsnum" where
  "displacement x z time waveAmplitude waveLength waveSpeed =
     (case dbl (x * x + z * z) of
        None \<Rightarrow> None
      | Some sq \<Rightarrow>
          (let distance = sqrt sq in
           case (js_div distance waveLength, dbl (time * waveSpeed)) of
             (Some q, Some ts) \<Rightarrow>
               (case dbl (q - ts) of
                  None \<Rightarrow> None
                | Some wavePhase \<Rightarrow>
                    (case dbl (wavePhase * pi * 2) of
                       None \<Rightarrow> None
                     | Some wp \<Rightarrow>
                         (let waveValue = sin wp * waveAmplitude;
                              angle = atan2 z x;
                              angularWave = sin (angle * 2 + ts * 0.5) * waveAmplitude * 0.3
                          in dbl (waveValue + angularWave))))
           | _ \<Rightarrow> None))"

definition GreatWave_height ::
  "real \<Rightarrow> real \<Rightarrow> real \<Rightarrow> real \<Rightarrow> jsnum \<Rightarrow> jsnum \<Rightarrow> jsnum" where
  "GreatWave_height time waveAmplitude waveLength waveSpeed px pz =
     (case (px, pz) of
        (Some x, Some z) \<Rightarrow> f32 (displacement x z time waveAmplitude waveLength waveSpeed)
      | _ \<Rightarrow> None)"

text \<open>\<open>mounted\<close> is \<open>particlesRef.current\<close>; the time is \<open>state.clock.elapsedTime\<close>.\<close>

definition GreatWave_useFrame ::
  "bool \<Rightarrow> bool \<Rightarrow> real \<Rightarrow> real \<Rightarrow> real \<Rightarrow> real \<Rightarrow> int \<Rightarrow> Float32Array \<Rightarrow> Float32Array" where
  "GreatWave_useFrame mounted showWave elapsedTime waveAmplitude waveLength waveSpeed
       particleCount array =
     (if mounted \<and> showWave
      then update_by_count (GreatWave_height elapsedTime waveAmplitude waveLength waveSpeed)
             particleCount 0 array
      else array)"

definition GreatWaveSurface_useFrame ::
  "bool \<Rightarrow> bool \<Rightarrow> real \<Rightarrow> real \<Rightarrow> real \<Rightarrow> real \<Rightarrow> Float32Array \<Rightarrow> Float32Array" where
  "GreatWaveSurface_useFrame mounted showSurface elapsedTime waveAmplitude waveLength waveSpeed
       array =
     (if mounted \<and> showSurface
      then update_by_length (GreatWave_height elapsedTime waveAmplitude waveLength waveSpeed)
             0 array
      else array)"

section \<open>One-shot generators\<close>

text \<open>
  The generators draw from \<open>Math.random()\<close> and colour through \<open>THREE.Color.setHSL\<close>.
  Both are passed in: \<open>random k\<close> is the value of the \<open>k\<close>-th call of \<open>Math.random()\<close> made
  by one generator run (calls are numbered in evaluation order, and every loop carries the
  number of calls made so far), and \<open>setHSL h s l\<close> is the \<open>(r, g, b)\<close> of the colour
  \<open>setHSL(h, s, l)\<close> sets. A particle count is an integer.
\<close>

datatype error = RangeError

text \<open>\<open>new Float32Array(n)\<close>: \<open>n\<close> zeros, and a \<open>RangeError\<close> for a negative length.\<close>

definition new_Float32Array :: "int \<Rightarrow> error + Float32Array" where
  "new_Float32Array n = (if n < 0 then Inl RangeError else Inr (replicate (nat n) (Some 0)))"

subsection \<open>Galaxy (MilkyWayVisualization.jsx, useMemo of Galaxy)\<close>

text \<open>Lines 38-43, the bulge branch; \<open>k\<close> numbers its first call of \<open>Math.random()\<close>.\<close>

definition bulge_position :: "(nat \<Rightarrow> real) \<Rightarrow> nat \<Rightarrow> real \<Rightarrow> jsnum \<times> jsnum \<times> jsnum" where
  "bulge_position random k radius =
     (case js_acos (2 * random k - 1) of
        None \<Rightarrow> (None, None, None)
      | Some phi \<Rightarrow>
          (let theta = random (k + 1) * pi * 2;
               r = radius * (0.3 + random (k + 2) * 0.7);
               x = r * sin phi * cos theta;
               y = r * sin phi * sin theta * 0.3;
               z = r * cos phi
           in (Some x, Some y, Some z)))"

text \<open>Lines 55-57: \<open>armIndex\<close>, \<open>armAngle\<close> and
  \<open>spiralAngle = armAngle + Math.log(radius / bulgeSize) * spiralTightness\<close>. The floor is
  taken of the exact product; the code floors the rounded product, which is another arm
  when the product is within rounding of an integer. Nothing below depends on the arm.\<close>

definition spiralAngle :: "real \<Rightarrow> real \<Rightarrow> real \<Rightarrow> real \<Rightarrow> real \<Rightarrow> jsnum" where
  "spiralAngle angle radius armCount bulgeSize spiralTightness =
     (let armIndex = of_int \<lfloor>(angle / (pi * 2)) * armCount\<rfloor> in
      case js_div armIndex armCount of
        None \<Rightarrow> None
      | Some q \<Rightarrow>
          (case dbl (q * pi * 2) of
             None \<Rightarrow> None
           | Some armAngle \<Rightarrow>
               (case js_div radius bulgeSize of
                  None \<Rightarrow> None
                | Some ratio \<Rightarrow>
                    (case js_log ratio of
                       None \<Rightarrow> None
                     | Some l \<Rightarrow>
                         (case dbl (l * spiralTightness) of
                            None \<Rightarrow> None
                          | Some t \<Rightarrow> dbl (armAngle + t))))))"

text \<open>Lines 46-64, the spiral branch; \<open>k\<close> numbers its one call of \<open>Math.random()\<close>.\<close>

definition spiral_position ::
  "(nat \<Rightarrow> real) \<Rightarrow> nat \<Rightarrow> real \<Rightarrow> real \<Rightarrow> real \<Rightarrow> real \<Rightarrow> real \<Rightarrow> real \<Rightarrow> real
     \<Rightarrow> jsnum \<times> jsnum \<times> jsnum" where
  "spiral_position random k angle radius galaxyRadius armCount barLength bulgeSize
       spiralTightness =
     (let normalizedRadius =
            (case (dbl (radius - bulgeSize), dbl (galaxyRadius - bulgeSize)) of
               (Some n, Some d) \<Rightarrow> js_div n d
             | _ \<Rightarrow> None);
          barInfluence =
            (if radius < barLength
             then map_option (\<lambda>nr. cos (angle * 2) * (1 - nr)) normalizedRadius
             else Some 0);
          finalAngle =
            (case (spiralAngle angle radius armCount bulgeSize spiralTightness, barInfluence) of
               (Some sa, Some bi) \<Rightarrow> dbl (sa + bi * 0.3)
             | _ \<Rightarrow> None);
          x = map_option (\<lambda>fa. cos fa * radius) finalAngle;
          z = map_option (\<lambda>fa. sin fa * radius) finalAngle;
          y = map_option (\<lambda>nr. (random k - 0.5) * 0.4 * (1 - nr * 0.5)) normalizedRadius
      in (x, y, z))"

text \<open>Lines 31-70: the position of one particle and the number of calls of
  \<open>Math.random()\<close> made when it is done; \<open>k\<close> numbers the particle's first call.\<close>

definition Galaxy_position ::
  "(nat \<Rightarrow> real) \<Rightarrow> nat \<Rightarrow> real \<Rightarrow> real \<Rightarrow> real \<Rightarrow> real \<Rightarrow> real
     \<Rightarrow> (jsnum \<times> jsnum \<times> jsnum) \<times> nat" where
  "Galaxy_position random k galaxyRadius armCount barLength bulgeSize spiralTightness =
     (let angle = random k * pi * 2;
          radius = random (k + 1) * galaxyRadius
      in if radius < bulgeSize
         then (case bulge_position random (k + 2) radius of
                 (x, y, z) \<Rightarrow>
                   ((map_option (\<lambda>x. x + (random (k + 5) - 0.5) * 0.3) x,
                     map_option (\<lambda>y. y + (random (k + 6) - 0.5) * 0.2) y,
                     map_option (\<lambda>z. z + (random (k + 7) - 0.5) * 0.3) z), k + 8))
         else (case spiral_position random (k + 2) angle radius galaxyRadius armCount barLength
                      bulgeSize spiralTightness of
                 (x, y, z) \<Rightarrow>
                   ((map_option (\<lambda>x. x + (random (k + 3) - 0.5) * 0.3) x,
                     map_option (\<lambda>y. y + (random (k + 4) - 0.5) * 0.2) y,
                     map_option (\<lambda>z. z + (random (k + 5) - 0.5) * 0.3) z), k + 6)))"

text \<open>Lines 77-95: the colour of the particle at \<open>(x, y, z)\<close>. The coordinates are
  finite or \<open>NaN\<close> here (every product above is bounded by the radius). A comparison with
  \<open>NaN\<close> is false, and \<open>Math.min(Infinity, 1)\<close> is \<open>1\<close>. When \<open>x * x + z * z\<close> overflows,
  the distance is \<open>Infinity\<close> and \<open>Math.min(Infinity / galaxyRadius, 1)\<close> is \<open>1\<close>, or
  \<open>-Infinity\<close> for a negative \<open>galaxyRadius\<close>, which is below \<open>0.3\<close>.\<close>

definition Galaxy_color ::
  "(real \<Rightarrow> real \<Rightarrow> real \<Rightarrow> real \<times> real \<times> real) \<Rightarrow> (nat \<Rightarrow> real) \<Rightarrow> nat \<Rightarrow> real
     \<Rightarrow> jsnum \<Rightarrow> jsnum \<Rightarrow> real \<times> real \<times> real" where
  "Galaxy_color setHSL random k galaxyRadius px pz =
     (let squares =
            (case (px, pz) of (Some x, Some z) \<Rightarrow> Some (x * x + z * z) | _ \<Rightarrow> None);
          overflow = (case squares of Some s \<Rightarrow> dbl s = None | None \<Rightarrow> False);
          distanceFromCenter =
            (case squares of Some s \<Rightarrow> map_option sqrt (dbl s) | None \<Rightarrow> None);
          normalizedDistance =
            (if overflow then (if galaxyRadius < 0 then None else Some 1)
             else case distanceFromCenter of
               None \<Rightarrow> None
             | Some d \<Rightarrow>
                 if galaxyRadius = 0 then (if d = 0 then None else Some 1)
                 else Some (min (d / galaxyRadius) 1));
          minusInfinity = (overflow \<and> galaxyRadius < 0)
      in if minusInfinity
            \<or> (case normalizedDistance of Some nd \<Rightarrow> nd < 0.3 | None \<Rightarrow> False)
         then setHSL (0.1 + random k * 0.05) (0.7 + random (k + 1) * 0.2)
                (0.6 + random (k + 2) * 0.3)
         else if (case normalizedDistance of Some nd \<Rightarrow> nd < 0.6 | None \<Rightarrow> False)
         then setHSL (0.08 + random k * 0.1) (0.3 + random (k + 1) * 0.3)
                (0.7 + random (k + 2) * 0.2)
         else setHSL (0.55 + random k * 0.1) (0.6 + random (k + 1) * 0.3)
                (0.5 + random (k + 2) * 0.3))"

text \<open>The loop of lines 29-97, from particle \<open>i\<close> on, \<open>k\<close> calls of \<open>Math.random()\<close>
  made so far. The coordinates go through the float32 store; the colour components are
  those of a \<open>THREE.Color\<close>, between \<open>0\<close> and \<open>1\<close>.\<close>

function Galaxy_loop ::
  "(real \<Rightarrow> real \<Rightarrow> real \<Rightarrow> real \<times> real \<times> real) \<Rightarrow> (nat \<Rightarrow> real) \<Rightarrow> int
     \<Rightarrow> real \<Rightarrow> real \<Rightarrow> real \<Rightarrow> real \<Rightarrow> real \<Rightarrow> nat \<Rightarrow> nat
     \<Rightarrow> Float32Array \<Rightarrow> Float32Array \<Rightarrow> Float32Array \<times> Float32Array" where
  "Galaxy_loop setHSL random count galaxyRadius armCount barLength bulgeSize spiralTightness
       i k posBuf colBuf =
     (if int i < count
      then (case Galaxy_position random k galaxyRadius armCount barLength bulgeSize
                   spiralTightness of
              ((x, y, z), k') \<Rightarrow>
                (case Galaxy_color setHSL random k' galaxyRadius x z of
                   (r, g, b) \<Rightarrow>
                     Galaxy_loop setHSL random count galaxyRadius armCount barLength bulgeSize
                       spiralTightness (i + 1) (k' + 3)
                       (posBuf[i * 3 := f32 x, i * 3 + 1 := f32 y, i * 3 + 2 := f32 z])
                       (colBuf[i * 3 := Some r, i * 3 + 1 := Some g, i * 3 + 2 := Some b])))
      else (posBuf, colBuf))"
  by pat_completeness auto
termination
  by (relation "measure (\<lambda>(setHSL, random, count, gr, ac, bl, bs, st, i, k, pb, cb).
        nat (count - int i))") auto

declare Galaxy_loop.simps [simp del]

definition Galaxy_generate ::
  "(real \<Rightarrow> real \<Rightarrow> real \<Rightarrow> real \<times> real \<times> real) \<Rightarrow> (nat \<Rightarrow> real) \<Rightarrow> int
     \<Rightarrow> real \<Rightarrow> real \<Rightarrow> real \<Rightarrow> real \<Rightarrow> real \<Rightarrow> error + ParticleSet" where
  "Galaxy_generate setHSL random particleCount galaxyRadius armCount barLength bulgeSize
       spiralTightness =
     (let count = particleCount in
      case new_Float32Array (count * 3) of
        Inl e \<Rightarrow> Inl e
      | Inr posBuf \<Rightarrow>
          (case new_Float32Array (count * 3) of
             Inl e \<Rightarrow> Inl e
           | Inr colBuf \<Rightarrow>
               (case Galaxy_loop setHSL random count galaxyRadius armCount barLength bulgeSize
                       spiralTightness 0 0 posBuf colBuf of
                  (p, c) \<Rightarrow> Inr \<lparr>positions = p, colors = c\<rparr>)))"

subsection \<open>WaveParticles (MilkyWayVisualization.jsx, useMemo of WaveParticles)\<close>

text \<open>A \<open>THREE.Vector3\<close> with finite components and its \<open>distanceTo\<close>
  (\<open>Math.sqrt(dx * dx + dy * dy + dz * dz)\<close> in three.js).\<close>

type_synonym Vector3 = "real \<times> real \<times> real"

definition distanceTo :: "Vector3 \<Rightarrow> Vector3 \<Rightarrow> real" where
  "distanceTo a b =
     (case (a, b) of
        ((ax, ay, az), (bx, by, bz)) \<Rightarrow>
          (let dx = ax - bx; dy = ay - by; dz = az - bz
           in sqrt (dx * dx + dy * dy + dz * dz)))"

text \<open>The loop of lines 263-281, from particle \<open>i\<close> on, \<open>k\<close> calls of \<open>Math.random()\<close>
  made so far; \<open>hue\<close> is \<open>colorObj.getHSL({}).h\<close>.\<close>

function WaveParticles_loop ::
  "(real \<Rightarrow> real \<Rightarrow> real \<Rightarrow> real \<times> real \<times> real) \<Rightarrow> (nat \<Rightarrow> real) \<Rightarrow> real \<Rightarrow> int
     \<Rightarrow> nat \<Rightarrow> nat \<Rightarrow> Float32Array \<Rightarrow> Float32Array \<Rightarrow> Vector3 list
     \<Rightarrow> Float32Array \<times> Float32Array \<times> Vector3 list" where
  "WaveParticles_loop setHSL random hue count i k posBuf colBuf particlePositions =
     (if int i < count
      then (let x = (random k - 0.5) * 100;
                y = (random (k + 1) - 0.5) * 30;
                z = (random (k + 2) - 0.5) * 100
            in case setHSL (hue + (random (k + 3) - 0.5) * 0.1) 0.8
                      (0.3 + random (k + 4) * 0.2) of
                 (r, g, b) \<Rightarrow>
                   WaveParticles_loop setHSL random hue count (i + 1) (k + 5)
                     (posBuf[i * 3 := Some x, i * 3 + 1 := Some y, i * 3 + 2 := Some z])
                     (colBuf[i * 3 := Some r, i * 3 + 1 := Some g, i * 3 + 2 := Some b])
                     (particlePositions @ [(x, y, z)]))
      else (posBuf, colBuf, particlePositions))"
  by pat_completeness auto
termination
  by (relation "measure (\<lambda>(setHSL, random, hue, count, i, k, pb, cb, pp).
        nat (count - int i))") auto

declare WaveParticles_loop.simps [simp del]

text \<open>
  The connection loops of lines 286-295:
  \<^verbatim>\<open>for (let i = 0; i < count; i++) {
    for (let j = i + 1; j < count; j++) {
      const distance = particlePositions[i].distanceTo(particlePositions[j]);
      if (distance < connectionDistance) {
        connectionLines.push([i, j]);
        if (connectionLines.length >= maxConnections) break;
      }
    }
    if (connectionLines.length >= maxConnections) break;
  }\<close>
  \<open>connect_inner\<close> is the inner loop from \<open>j\<close> on, \<open>connect_outer\<close> the outer loop from
  \<open>i\<close> on; \<open>count\<close> is the number of entries of \<open>particlePositions\<close>.
\<close>

function connect_inner ::
  "Vector3 list \<Rightarrow> real \<Rightarrow> int \<Rightarrow> nat \<Rightarrow> nat \<Rightarrow> nat \<Rightarrow> (nat \<times> nat) list
     \<Rightarrow> (nat \<times> nat) list" where
  "connect_inner particlePositions connectionDistance maxConnections count i j connectionLines =
     (if j < count
      then (let distance = distanceTo (particlePositions ! i) (particlePositions ! j)
            in if distance < connectionDistance
               then (let pushed = connectionLines @ [(i, j)]
                     in if maxConnections \<le> int (length pushed) then pushed
                        else connect_inner particlePositions connectionDistance maxConnections
                               count i (j + 1) pushed)
               else connect_inner particlePositions connectionDistance maxConnections
                      count i (j + 1) connectionLines)
      else connectionLines)"
  by pat_completeness auto
termination
  by (relation "measure (\<lambda>(pp, d, m, count, i, j, ls). count - j)") auto

declare connect_inner.simps [simp del]

function connect_outer ::
  "Vector3 list \<Rightarrow> real \<Rightarrow> int \<Rightarrow> nat \<Rightarrow> nat \<Rightarrow> (nat \<times> nat) list \<Rightarrow> (nat \<times> nat) list" where
  "connect_outer particlePositions connectionDistance maxConnections count i connectionLines =
     (if i < count
      then (let scanned = connect_inner particlePositions connectionDistance maxConnections
                            count i (i + 1) connectionLines
            in if maxConnections \<le> int (length scanned) then scanned
               else connect_outer particlePositions connectionDistance maxConnections
                      count (i + 1) scanned)
      else connectionLines)"
  by pat_completeness auto
termination
  by (relation "measure (\<lambda>(pp, d, m, count, i, ls). count - i)") auto

declare connect_outer.simps [simp del]

text \<open>The proximity graph of a list of particle positions: the two loops over all of it,
  started with no connection line.\<close>

definition build_connections :: "Vector3 list \<Rightarrow> real \<Rightarrow> int \<Rightarrow> (nat \<times> nat) list" where
  "build_connections particlePositions connectionDistance maxConnections =
     connect_outer particlePositions connectionDistance maxConnections
       (length particlePositions) 0 []"

definition WaveParticles_generate ::
  "(real \<Rightarrow> real \<Rightarrow> real \<Rightarrow> real \<times> real \<times> real) \<Rightarrow> (nat \<Rightarrow> real) \<Rightarrow> real \<Rightarrow> int
     \<Rightarrow> real \<Rightarrow> int \<Rightarrow> error + WaveParticles_state" where
  "WaveParticles_generate setHSL random hue count connectionDistance maxConnections =
     (case new_Float32Array (count * 3) of
        Inl e \<Rightarrow> Inl e
      | Inr posBuf \<Rightarrow>
          (case new_Float32Array (count * 3) of
             Inl e \<Rightarrow> Inl e
           | Inr colBuf \<Rightarrow>
               (case WaveParticles_loop setHSL random hue count 0 0 posBuf colBuf [] of
                  (p, c, particlePositions) \<Rightarrow>
                    (let connectionLines =
                           connect_outer particlePositions connectionDistance maxConnections
                             (nat count) 0 []
                     in Inr \<lparr>positions = p, colors = c, connections = connectionLines\<rparr>))))"

subsection \<open>GreatWave (GreatWave.jsx, useMemo of GreatWave)\<close>

function GreatWave_loop ::
  "(real \<Rightarrow> real \<Rightarrow> real \<Rightarrow> real \<times> real \<times> real) \<Rightarrow> (nat \<Rightarrow> real) \<Rightarrow> real \<Rightarrow> int
     \<Rightarrow> nat \<Rightarrow> nat \<Rightarrow> Float32Array \<Rightarrow> Float32Array \<Rightarrow> Float32Array \<times> Float32Array" where
  "GreatWave_loop setHSL random galaxyRadius particleCount i k posBuf colBuf =
     (if int i < particleCount
      then (let angle = random k * pi * 2;
                radius = dbl ((0.6 + random (k + 1) * 0.7) * galaxyRadius);
                x = map_option (\<lambda>radius. cos angle * radius) radius;
                z = map_option (\<lambda>radius. sin angle * radius) radius;
                y = Some 0
            in case setHSL (0.05 + random (k + 2) * 0.1) 0.7 (0.5 + random (k + 3) * 0.3) of
                 (r, g, b) \<Rightarrow>
                   GreatWave_loop setHSL random galaxyRadius particleCount (i + 1) (k + 4)
                     (posBuf[i * 3 := f32 x, i * 3 + 1 := f32 y, i * 3 + 2 := f32 z])
                     (colBuf[i * 3 := Some r, i * 3 + 1 := Some g, i * 3 + 2 := Some b]))
      else (posBuf, colBuf))"
  by pat_completeness auto
termination
  by (relation "measure (\<lambda>(setHSL, random, gr, particleCount, i, k, pb, cb).
        nat (particleCount - int i))") auto

declare GreatWave_loop.simps [simp del]

definition GreatWave_generate ::
  "(real \<Rightarrow> real \<Rightarrow> real \<Rightarrow> real \<times> real \<times> real) \<Rightarrow> (nat \<Rightarrow> real) \<Rightarrow> real \<Rightarrow> int
     \<Rightarrow> error + ParticleSet" where
  "GreatWave_generate setHSL random galaxyRadius particleCount =
     (case new_Float32Array (particleCount * 3) of
        Inl e \<Rightarrow> Inl e
      | Inr posBuf \<Rightarrow>
          (case new_Float32Array (particleCount * 3) of
             Inl e \<Rightarrow> Inl e
           | Inr colBuf \<Rightarrow>
               (case GreatWave_loop setHSL random galaxyRadius particleCount 0 0 posBuf colBuf of
                  (p, c) \<Rightarrow> Inr \<lparr>positions = p, colors = c\<rparr>)))"

subsection \<open>Bookkeeping for the Galaxy loop\<close>

text \<open>The number of calls of \<open>Math.random()\<close> the Galaxy loop has made when it reaches
  particle \<open>i\<close> (a particle's position takes 8 or 6 calls, its colour 3), and the
  coordinate of a position that is stored at offset \<open>c\<close> of the particle's three entries.\<close>

primrec Galaxy_calls ::
  "(nat \<Rightarrow> real) \<Rightarrow> real \<Rightarrow> real \<Rightarrow> real \<Rightarrow> real \<Rightarrow> real \<Rightarrow> nat \<Rightarrow> nat" where
  "Galaxy_calls random galaxyRadius armCount barLength bulgeSize spiralTightness 0 = 0"
| "Galaxy_calls random galaxyRadius armCount barLength bulgeSize spiralTightness (Suc i) =
     snd (Galaxy_position random
            (Galaxy_calls random galaxyRadius armCount barLength bulgeSize spiralTightness i)
            galaxyRadius armCount barLength bulgeSize spiralTightness) + 3"

definition coordinate :: "jsnum \<times> jsnum \<times> jsnum \<Rightarrow> nat \<Rightarrow> jsnum" where
  "coordinate p c = (case p of (x, y, z) \<Rightarrow> if c = 0 then x else if c = 1 then y else z)"

section \<open>Properties of the per-frame updates\<close>

subsection \<open>What the two loops write\<close>

lemma vertex_index:
  fixes n k :: nat
  shows "(k = 3 * n + 1) = (k div 3 = n \<and> k mod 3 = 1)"
  by arith

lemma vertex_next:
  fixes n k :: nat
  assumes "k \<noteq> 3 * n + 1"
  shows "(n \<le> k div 3 \<and> k mod 3 = 1) = (n + 1 \<le> k div 3 \<and> k mod 3 = 1)"
  using assms by arith

lemma get_update_other: "j \<noteq> i \<Longrightarrow> get (a[i := v]) j = get a j"
  by (simp add: get_def)

lemma length_update_by_length: "length (update_by_length h i array) = length array"
  by (induction h i array rule: update_by_length.induct) (subst update_by_length.simps, simp)

lemma nth_update_by_length:
  "i = 3 * n \<Longrightarrow> update_by_length h i array ! k =
     (if n \<le> k div 3 \<and> k mod 3 = 1 \<and> k < length array
      then h (get array (k - 1)) (get array (k + 1)) else array ! k)"
proof (induction h i array arbitrary: n rule: update_by_length.induct)
  case (1 h i array)
  note i = \<open>i = 3 * n\<close>
  show ?case
  proof (cases "i < length array")
    case False
    have "\<not> (n \<le> k div 3 \<and> k < length array)" using False i by arith
    then show ?thesis using False by (subst update_by_length.simps) auto
  next
    case True
    define v where "v = h (get array i) (get array (i + 2))"
    define a where "a = array[i + 1 := v]"
    have eq: "update_by_length h i array = update_by_length h (i + 3) a"
      using True by (subst update_by_length.simps) (simp add: a_def v_def)
    have IH: "update_by_length h (i + 3) a ! k =
       (if n + 1 \<le> k div 3 \<and> k mod 3 = 1 \<and> k < length a
        then h (get a (k - 1)) (get a (k + 1)) else a ! k)"
      using "1.IH"[OF True, of "n + 1"] i by (simp add: a_def v_def)
    have la: "length a = length array" by (simp add: a_def)
    show ?thesis
    proof (cases "k = 3 * n + 1")
      case k: True
      then have c: "k div 3 = n" "k mod 3 = 1" using vertex_index[of k n] by simp_all
      have "a ! k = (if k < length array then v else array ! k)"
        using k i by (simp add: a_def list_update_beyond)
      then show ?thesis unfolding eq IH la using k c i by (simp add: v_def)
    next
      case k: False
      have n: "a ! k = array ! k" using k i by (simp add: a_def)
      show ?thesis
      proof (cases "n + 1 \<le> k div 3 \<and> k mod 3 = 1")
        case True
        then have "k - 1 \<noteq> i + 1" "k + 1 \<noteq> i + 1" using i by arith+
        then have g: "get a (k - 1) = get array (k - 1)" "get a (k + 1) = get array (k + 1)"
          by (simp_all add: a_def get_update_other)
        from True vertex_next[OF k] have "n \<le> k div 3 \<and> k mod 3 = 1" by blast
        with True show ?thesis unfolding eq IH la g n by auto
      next
        case False
        with vertex_next[OF k] have "\<not> (n \<le> k div 3 \<and> k mod 3 = 1)" by blast
        with False show ?thesis unfolding eq IH la n by auto
      qed
    qed
  qed
qed

lemma length_update_by_count: "length (update_by_count h count i array) = length array"
  by (induction h count i array rule: update_by_count.induct) 
     (subst update_by_count.simps, simp add: Let_def)

lemma nth_update_by_count:
  "update_by_count h count i array ! k =
     (if i \<le> k div 3 \<and> k mod 3 = 1 \<and> int (k div 3) < count \<and> k < length array
      then h (get array (k - 1)) (get array (k + 1)) else array ! k)"
proof (induction h count i array rule: update_by_count.induct)
  case (1 h count i array)
  show ?case
  proof (cases "int i < count")
    case False
    then have "\<not> (i \<le> k div 3 \<and> int (k div 3) < count)" by arith
    then show ?thesis using False by (subst update_by_count.simps) auto
  next
    case True
    define v where "v = h (get array (i * 3)) (get array (i * 3 + 2))"
    define a where "a = array[i * 3 + 1 := v]"
    have eq: "update_by_count h count i array = update_by_count h count (i + 1) a"
      using True by (subst update_by_count.simps) (simp add: a_def v_def Let_def)
    have IH: "update_by_count h count (i + 1) a ! k =
       (if i + 1 \<le> k div 3 \<and> k mod 3 = 1 \<and> int (k div 3) < count \<and> k < length a
        then h (get a (k - 1)) (get a (k + 1)) else a ! k)"
      using "1.IH"[OF True] by (simp add: a_def v_def Let_def)
    have la: "length a = length array" by (simp add: a_def)
    show ?thesis
    proof (cases "k = 3 * i + 1")
      case k: True
      then have c: "k div 3 = i" "k mod 3 = 1" using vertex_index[of k i] by simp_all
      have "a ! k = (if k < length array then v else array ! k)"
        using k by (simp add: a_def mult.commute list_update_beyond)
      then show ?thesis unfolding eq IH la using k c True by (simp add: v_def mult.commute)
    next
      case k: False
      have n: "a ! k = array ! k" using k by (simp add: a_def mult.commute)
      show ?thesis
      proof (cases "i + 1 \<le> k div 3 \<and> k mod 3 = 1")
        case True
        then have "k - 1 \<noteq> i * 3 + 1" "k + 1 \<noteq> i * 3 + 1" by arith+
        then have g: "get a (k - 1) = get array (k - 1)" "get a (k + 1) = get array (k + 1)"
          by (simp_all add: a_def get_update_other)
        from True vertex_next[OF k] have "i \<le> k div 3 \<and> k mod 3 = 1" by blast
        with True show ?thesis unfolding eq IH la g n by auto
      next
        case False
        with vertex_next[OF k] have "\<not> (i \<le> k div 3 \<and> k mod 3 = 1)" by blast
        with False show ?thesis unfolding eq IH la n by auto
      qed
    qed
  qed
qed



lemma mod3_neighbours:
  fixes k :: nat
  assumes "k mod 3 = 1"
  shows "(k - 1) mod 3 \<noteq> 1" and "(k + 1) mod 3 \<noteq> 1"
proof -
  from div_mult_mod_eq[of k 3] assms have k: "k = k div 3 * 3 + 1" by simp
  have "k - 1 = k div 3 * 3" by (subst k) simp
  then show "(k - 1) mod 3 \<noteq> 1" by simp
  show "(k + 1) mod 3 \<noteq> 1" using assms by (simp add: mod_Suc)
qed

lemma update_by_length_idem:
  "update_by_length h 0 (update_by_length h 0 array) = update_by_length h 0 array"
proof (rule nth_equalityI)
  show "length (update_by_length h 0 (update_by_length h 0 array)) = length (update_by_length h 0 array)"
    by (simp add: length_update_by_length)
next
  fix k
  assume "k < length (update_by_length h 0 (update_by_length h 0 array))"
  then have k: "k < length array" by (simp add: length_update_by_length)
  let ?a = "update_by_length h 0 array"
  have nth: "\<And>a j. update_by_length h 0 a ! j =
      (if j mod 3 = 1 \<and> j < length a then h (get a (j - 1)) (get a (j + 1)) else a ! j)"
    using nth_update_by_length[of 0 0] by simp
  show "update_by_length h 0 ?a ! k = ?a ! k"
  proof (cases "k mod 3 = 1")
    case False
    then show ?thesis by (simp add: nth)
  next
    case True
    then have m: "(k - 1) mod 3 \<noteq> 1" "(k + 1) mod 3 \<noteq> 1" by (rule mod3_neighbours)+
    have g: "get ?a (k - 1) = get array (k - 1)" "get ?a (k + 1) = get array (k + 1)"
      using m by (simp_all add: get_def length_update_by_length nth)
    show ?thesis using True k g by (simp add: nth[of ?a] nth[of array] length_update_by_length)
  qed
qed

lemma update_by_count_idem:
  "update_by_count h count 0 (update_by_count h count 0 array) = update_by_count h count 0 array"
proof (rule nth_equalityI)
  show "length (update_by_count h count 0 (update_by_count h count 0 array)) = length (update_by_count h count 0 array)"
    by (simp add: length_update_by_count)
next
  fix k
  assume "k < length (update_by_count h count 0 (update_by_count h count 0 array))"
  then have k: "k < length array" by (simp add: length_update_by_count)
  let ?a = "update_by_count h count 0 array"
  have nth: "\<And>a j. update_by_count h count 0 a ! j =
      (if j mod 3 = 1 \<and> int (j div 3) < count \<and> j < length a then h (get a (j - 1)) (get a (j + 1)) else a ! j)"
    using nth_update_by_count[of h count 0] by simp
  show "update_by_count h count 0 ?a ! k = ?a ! k"
  proof (cases "k mod 3 = 1")
    case False
    then show ?thesis by (simp add: nth)
  next
    case True
    then have m: "(k - 1) mod 3 \<noteq> 1" "(k + 1) mod 3 \<noteq> 1" by (rule mod3_neighbours)+
    have g: "get ?a (k - 1) = get array (k - 1)" "get ?a (k + 1) = get array (k + 1)"
      using m by (simp_all add: get_def length_update_by_count nth)
    show ?thesis using True k g by (simp add: nth[of ?a] nth[of array] length_update_by_count)
  qed
qed

text \<open>
  Claim C8. The per-frame updates are idempotent in time: for every buffer (every state)
  and every fixed elapsed time, running the WaveField, the WaveParticles, the GreatWave or
  the GreatWaveSurface update a second time with the same time and parameters gives the
  buffer the first run gave. Each written height depends on the unchanged \<open>x\<close> and \<open>z\<close>
  entries, the time and the parameters only.
\<close>

theorem useFrame_idempotent:
  "WaveField_useFrame mounted elapsedTime waveSpeed waveIntensity
      (WaveField_useFrame mounted elapsedTime waveSpeed waveIntensity array)
     = WaveField_useFrame mounted elapsedTime waveSpeed waveIntensity array
   \<and> WaveParticles_useFrame mounted elapsedTime waveSpeed waveIntensity count
      (WaveParticles_useFrame mounted elapsedTime waveSpeed waveIntensity count s)
     = WaveParticles_useFrame mounted elapsedTime waveSpeed waveIntensity count s
   \<and> GreatWave_useFrame mounted showWave elapsedTime waveAmplitude waveLength waveSpeed count
      (GreatWave_useFrame mounted showWave elapsedTime waveAmplitude waveLength waveSpeed count array)
     = GreatWave_useFrame mounted showWave elapsedTime waveAmplitude waveLength waveSpeed count array
   \<and> GreatWaveSurface_useFrame mounted showWave elapsedTime waveAmplitude waveLength waveSpeed
      (GreatWaveSurface_useFrame mounted showWave elapsedTime waveAmplitude waveLength waveSpeed array)
     = GreatWaveSurface_useFrame mounted showWave elapsedTime waveAmplitude waveLength waveSpeed array"
  by (simp add: WaveField_useFrame_def WaveParticles_useFrame_def GreatWave_useFrame_def
      GreatWaveSurface_useFrame_def update_by_length_idem update_by_count_idem Let_def)

text \<open>
  Claim C9. A frame of the wave-particle update leaves the colour buffer and the
  connection pairs as they were and keeps the length of the position buffer; every
  position entry that is not a \<open>y\<close> component (index \<open>k\<close> with \<open>k mod 3 \<noteq> 1\<close>), that is
  every \<open>x\<close> and \<open>z\<close>, is unchanged. Particle indices, and with them the index pairs of
  the connection graph, stay valid across frames.
\<close>

theorem WaveParticles_useFrame_frame:
  "colors (WaveParticles_useFrame mounted elapsedTime waveSpeed waveIntensity count s) = colors s
   \<and> connections (WaveParticles_useFrame mounted elapsedTime waveSpeed waveIntensity count s)
       = connections s
   \<and> length (positions (WaveParticles_useFrame mounted elapsedTime waveSpeed waveIntensity count s))
       = length (positions s)
   \<and> (\<forall>k. k mod 3 \<noteq> 1 \<longrightarrow>
         positions (WaveParticles_useFrame mounted elapsedTime waveSpeed waveIntensity count s) ! k
           = positions s ! k)"
  by (simp add: WaveParticles_useFrame_def Let_def length_update_by_count nth_update_by_count)

theorem WaveParticles_useFrame_frame_witness:
  "(3::nat) mod 3 \<noteq> 1 \<and>
   positions (WaveParticles_useFrame True 2 (1/2) 5 2
      \<lparr>positions = [Some 1, Some 2, Some 3, Some 4, Some 5, Some 6],
       colors = [Some 0, Some 0, Some 1, Some 0, Some 0, Some 1],
       connections = [(0, 1)]\<rparr>) ! 3 = Some 4"
  using WaveParticles_useFrame_frame[of True 2 "1/2" 5 2
      "\<lparr>positions = [Some 1, Some 2, Some 3, Some 4, Some 5, Some 6],
       colors = [Some 0, Some 0, Some 1, Some 0, Some 0, Some 1],
       connections = [(0, 1)]\<rparr>"]
  by simp

subsection \<open>The heights written\<close>


lemma GreatWave_useFrame_nth:
  "GreatWave_useFrame True True elapsedTime waveAmplitude waveLength waveSpeed particleCount array ! k =
     (if k mod 3 = 1 \<and> int (k div 3) < particleCount \<and> k < length array
      then GreatWave_height elapsedTime waveAmplitude waveLength waveSpeed (get array (k - 1)) (get array (k + 1))
      else array ! k)"
  using nth_update_by_count[of _ _ 0] by (simp add: GreatWave_useFrame_def)

lemma GreatWaveSurface_useFrame_nth:
  "GreatWaveSurface_useFrame True True elapsedTime waveAmplitude waveLength waveSpeed array ! k =
     (if k mod 3 = 1 \<and> k < length array
      then GreatWave_height elapsedTime waveAmplitude waveLength waveSpeed (get array (k - 1)) (get array (k + 1))
      else array ! k)"
  using nth_update_by_length[of 0 0] by (simp add: GreatWaveSurface_useFrame_def)

lemma vertex_y:
  fixes v :: nat
  shows "(3 * v + 1) mod 3 = 1" and "(3 * v + 1) div 3 = v"
  by simp_all

lemma get_vertex:
  assumes "3 * v + 2 < length array" "array ! (3 * v) = Some x" "array ! (3 * v + 2) = Some z"
  shows "get array (3 * v + 1 - 1) = Some x" and "get array (3 * v + 1 + 1) = Some z"
    and "3 * v + 1 < length array"
  using assms by (simp_all add: get_def)








lemma dbl_overflow_big: "10 ^ 307 < dbl_overflow"
  unfolding dbl_overflow_def by simp

lemma f32_overflow_big: "3 * 10 ^ 38 < f32_overflow"
  unfolding f32_overflow_def by simp

lemma dbl_Some: "\<bar>v\<bar> \<le> 10 ^ 307 \<Longrightarrow> dbl v = Some v"
  using dbl_overflow_big by (simp add: dbl_def)

lemma f32_Some: "\<bar>v\<bar> \<le> 3 * 10 ^ 38 \<Longrightarrow> f32 (Some v) = Some v"
  using f32_overflow_big by (simp add: f32_def)

lemma dbl_None: "10 ^ 309 \<le> \<bar>v\<bar> \<Longrightarrow> dbl v = None"
proof -
  have "dbl_overflow \<le> 10 ^ 309" unfolding dbl_overflow_def by simp
  then show "10 ^ 309 \<le> \<bar>v\<bar> \<Longrightarrow> dbl v = None" by (simp add: dbl_def)
qed

lemma f32_None_big: "4 * 10 ^ 38 \<le> \<bar>v\<bar> \<Longrightarrow> f32 (Some v) = None"
proof -
  have "f32_overflow \<le> 4 * 10 ^ 38" unfolding f32_overflow_def by simp
  then show "4 * 10 ^ 38 \<le> \<bar>v\<bar> \<Longrightarrow> f32 (Some v) = None" by (simp add: f32_def)
qed

lemma f32_None: "f32 None = None"
  by (simp add: f32_def)

lemma dbl_pi: "dbl pi = Some pi"
  using pi_less_4 pi_gt_zero by (intro dbl_Some) simp

lemma displacement_nonfinite:
  "displacement x z time waveAmplitude 0 waveSpeed = None"
  by (simp add: displacement_def js_div_def split: option.splits)

lemma two_sines:
  fixes a b A :: real
  assumes "\<bar>a\<bar> \<le> 1" and "\<bar>b\<bar> \<le> 1"
  shows "\<bar>a * A + b * A * (3 / 10)\<bar> \<le> 13 / 10 * \<bar>A\<bar>"
proof -
  have "\<bar>a\<bar> * \<bar>A\<bar> \<le> 1 * \<bar>A\<bar>" "\<bar>b\<bar> * \<bar>A\<bar> \<le> 1 * \<bar>A\<bar>"
    using assms by (intro mult_right_mono; simp)+
  then have "\<bar>a * A\<bar> \<le> \<bar>A\<bar>" "\<bar>b * A\<bar> \<le> \<bar>A\<bar>"
    by (simp_all only: abs_mult mult_1)
  moreover have "\<bar>b * A * (3 / 10)\<bar> = 3 / 10 * \<bar>b * A\<bar>"
    by (simp add: abs_mult)
  ultimately show ?thesis by linarith
qed

lemma displacement_finite:
  assumes "\<bar>x\<bar> \<le> 10 ^ 39" and "\<bar>z\<bar> \<le> 10 ^ 39" and "1 / 10 ^ 200 \<le> \<bar>waveLength\<bar>"
    and "\<bar>time * waveSpeed\<bar> \<le> 10 ^ 300" and "\<bar>waveAmplitude\<bar> \<le> 10 ^ 38"
  shows "displacement x z time waveAmplitude waveLength waveSpeed =
     Some (sin ((sqrt (x * x + z * z) / waveLength - time * waveSpeed) * pi * 2) * waveAmplitude
           + sin (atan2 z x * 2 + time * waveSpeed * 0.5) * waveAmplitude * 0.3)"
    and "f32 (displacement x z time waveAmplitude waveLength waveSpeed)
           = displacement x z time waveAmplitude waveLength waveSpeed"
proof -
  define sq where "sq = x * x + z * z"
  define q where "q = sqrt sq / waveLength"
  define ts where "ts = time * waveSpeed"
  define wp where "wp = (q - ts) * pi * 2"
  define d where "d = sin wp * waveAmplitude + sin (atan2 z x * 2 + ts * 0.5) * waveAmplitude * 0.3"
  have xx: "x * x \<le> 10 ^ 39 * 10 ^ 39" "z * z \<le> 10 ^ 39 * 10 ^ 39"
    using assms(1,2) mult_mono[of "\<bar>x\<bar>" "10 ^ 39" "\<bar>x\<bar>" "10 ^ 39"]
      mult_mono[of "\<bar>z\<bar>" "10 ^ 39" "\<bar>z\<bar>" "10 ^ 39"]
    by (simp_all add: abs_mult_self_eq)
  have sq0: "0 \<le> sq" unfolding sq_def by simp
  have "sq \<le> 2 * 10 ^ 78" unfolding sq_def using xx by simp
  with sq0 have sq: "dbl sq = Some sq" by (intro dbl_Some) simp
  have dist: "sqrt sq \<le> 2 * 10 ^ 39"
    unfolding sq_def using sqrt_sum_squares_le_sum_abs[of x z] assms(1,2)
    by (simp add: power2_eq_square)
  have L: "waveLength \<noteq> 0" "0 < \<bar>waveLength\<bar>" using assms(3) by auto
  have "\<bar>q\<bar> = sqrt sq / \<bar>waveLength\<bar>" unfolding q_def using sq0 by simp
  also have "\<dots> \<le> sqrt sq / (1 / 10 ^ 200)"
    using assms(3) sq0 by (intro divide_left_mono) simp_all
  also have "\<dots> \<le> 2 * 10 ^ 39 * 10 ^ 200" using dist by simp
  finally have qb: "\<bar>q\<bar> \<le> 2 * 10 ^ 239" by simp
  then have q: "js_div (sqrt sq) waveLength = Some q"
    using L by (simp add: js_div_def q_def[symmetric] dbl_Some)
  have tsb: "\<bar>ts\<bar> \<le> 10 ^ 300" unfolding ts_def by (rule assms(4))
  then have ts: "dbl (time * waveSpeed) = Some ts" by (simp add: ts_def[symmetric] dbl_Some)
  have pb: "\<bar>q - ts\<bar> \<le> 2 * 10 ^ 300" using qb tsb by simp
  then have ph: "dbl (q - ts) = Some (q - ts)" by (intro dbl_Some) simp
  have "\<bar>wp\<bar> = \<bar>q - ts\<bar> * pi * 2" unfolding wp_def by (simp add: abs_mult)
  also have "\<dots> \<le> 2 * 10 ^ 300 * 4 * 2"
    using pb pi_less_4 by (intro mult_mono) simp_all
  finally have wpb: "\<bar>wp\<bar> \<le> 10 ^ 307" by simp
  then have wp: "dbl ((q - ts) * pi * 2) = Some wp" by (simp add: wp_def[symmetric] dbl_Some)
  have "\<bar>d\<bar> \<le> 13 / 10 * \<bar>waveAmplitude\<bar>" unfolding d_def by (intro two_sines) simp_all
  with assms(5) have db: "\<bar>d\<bar> \<le> 3 * 10 ^ 38" by simp
  then have dd: "dbl d = Some d" by (intro dbl_Some) simp
  have dd': "dbl (sin wp * waveAmplitude + sin (atan2 z x * 2 + ts * 0.5) * waveAmplitude * 0.3)
      = Some d"
    using dd unfolding d_def .
  have eq: "displacement x z time waveAmplitude waveLength waveSpeed = Some d"
    unfolding displacement_def Let_def sq_def[symmetric]
    by (simp only: sq q ts ph wp dd' option.case prod.case)
  show "displacement x z time waveAmplitude waveLength waveSpeed =
     Some (sin ((sqrt (x * x + z * z) / waveLength - time * waveSpeed) * pi * 2) * waveAmplitude
           + sin (atan2 z x * 2 + time * waveSpeed * 0.5) * waveAmplitude * 0.3)"
    unfolding eq d_def wp_def q_def ts_def sq_def by simp
  show "f32 (displacement x z time waveAmplitude waveLength waveSpeed)
           = displacement x z time waveAmplitude waveLength waveSpeed"
    unfolding eq using db by (rule f32_Some)
qed

lemma GreatWave_useFrame_particle:
  assumes "int i < particleCount" and "3 * i + 2 < length array"
    and "array ! (3 * i) = Some x" and "array ! (3 * i + 2) = Some z"
  shows "GreatWave_useFrame True True time amplitude waveLength waveSpeed particleCount array
           ! (3 * i + 1)
         = f32 (displacement x z time amplitude waveLength waveSpeed)"
  unfolding GreatWave_useFrame_nth get_vertex[OF assms(2-4)] vertex_y
  using get_vertex(3)[OF assms(2-4)] assms(1)
  by (simp add: GreatWave_height_def)

lemma GreatWaveSurface_useFrame_vertex:
  assumes "3 * i + 2 < length array"
    and "array ! (3 * i) = Some x" and "array ! (3 * i + 2) = Some z"
  shows "GreatWaveSurface_useFrame True True time amplitude waveLength waveSpeed array
           ! (3 * i + 1)
         = f32 (displacement x z time amplitude waveLength waveSpeed)"
  unfolding GreatWaveSurface_useFrame_nth get_vertex[OF assms] vertex_y
  using get_vertex(3)[OF assms]
  by (simp add: GreatWave_height_def)

text \<open>
  Claim C6, as amended. For every point \<open>(x, z)\<close> a position buffer can hold
  (\<open>|x|, |z| \<le> 10^39\<close>), every time and all parameters with \<open>|waveLength| \<ge> 10^-200\<close>,
  \<open>|time * waveSpeed| \<le> 10^300\<close> and \<open>|amplitude| \<le> 10^38\<close> (so that the wave length is not
  zero and no intermediate result overflows), the Great Wave displacement is
  \<open>radial + angular\<close> with \<open>distance = sqrt(x\<^sup>2 + z\<^sup>2)\<close>,
  \<open>phase = distance / waveLength - time * waveSpeed\<close>,
  \<open>radial = amplitude * sin(phase * 2 pi)\<close>, \<open>angle = atan2(z, x)\<close> and
  \<open>angular = 0.3 * amplitude * sin(2 angle + time * waveSpeed * 0.5)\<close>; with amplitude \<open>0\<close>
  it is \<open>0\<close>; and it is the height both the particle loop and the surface loop store for
  a particle or vertex at \<open>(x, z)\<close>.
\<close>

theorem GreatWave_displacement_formula:
  assumes "\<bar>x\<bar> \<le> 10 ^ 39" and "\<bar>z\<bar> \<le> 10 ^ 39" and "1 / 10 ^ 200 \<le> \<bar>waveLength\<bar>"
    and "\<bar>time * waveSpeed\<bar> \<le> 10 ^ 300" and "\<bar>amplitude\<bar> \<le> 10 ^ 38"
  shows "displacement x z time amplitude waveLength waveSpeed =
      (let distance = sqrt (x\<^sup>2 + z\<^sup>2);
           phase = distance / waveLength - time * waveSpeed;
           radial = amplitude * sin (phase * (2 * pi));
           angle = atan2 z x;
           angular = 0.3 * amplitude * sin (2 * angle + time * waveSpeed * 0.5)
       in Some (radial + angular))
    \<and> displacement x z time 0 waveLength waveSpeed = Some 0
    \<and> (int i < particleCount \<and> 3 * i + 2 < length array
         \<and> array ! (3 * i) = Some x \<and> array ! (3 * i + 2) = Some z \<longrightarrow>
       GreatWave_useFrame True True time amplitude waveLength waveSpeed particleCount array
           ! (3 * i + 1)
         = displacement x z time amplitude waveLength waveSpeed)
    \<and> (3 * i + 2 < length array
         \<and> array ! (3 * i) = Some x \<and> array ! (3 * i + 2) = Some z \<longrightarrow>
       GreatWaveSurface_useFrame True True time amplitude waveLength waveSpeed array
           ! (3 * i + 1)
         = displacement x z time amplitude waveLength waveSpeed)"
proof -
  have a: "displacement x z time amplitude waveLength waveSpeed =
      (let distance = sqrt (x\<^sup>2 + z\<^sup>2);
           phase = distance / waveLength - time * waveSpeed;
           radial = amplitude * sin (phase * (2 * pi));
           angle = atan2 z x;
           angular = 0.3 * amplitude * sin (2 * angle + time * waveSpeed * 0.5)
       in Some (radial + angular))"
    by (simp add: displacement_finite(1)[OF assms] Let_def power2_eq_square mult_ac)
  have b: "displacement x z time 0 waveLength waveSpeed = Some 0"
    using displacement_finite(1)[OF assms(1-4), of 0] by simp
  note s = displacement_finite(2)[OF assms]
  from a b GreatWave_useFrame_particle[of i particleCount array x z time amplitude waveLength
      waveSpeed]
    GreatWaveSurface_useFrame_vertex[of i array x z time amplitude waveLength waveSpeed]
  show ?thesis unfolding s by blast
qed

theorem GreatWave_displacement_formula_witness:
  "\<bar>3 :: real\<bar> \<le> 10 ^ 39 \<and> \<bar>4 :: real\<bar> \<le> 10 ^ 39 \<and> (1 :: real) / 10 ^ 200 \<le> \<bar>30\<bar>
   \<and> \<bar>2 * (1 / 20) :: real\<bar> \<le> 10 ^ 300 \<and> \<bar>13 / 20 :: real\<bar> \<le> 10 ^ 38
   \<and> displacement 3 4 2 (13 / 20) 30 (1 / 20)
       = Some (13 / 20 * sin ((sqrt (3\<^sup>2 + 4\<^sup>2) / 30 - 2 * (1 / 20)) * (2 * pi))
               + 0.3 * (13 / 20) * sin (2 * atan2 4 3 + 2 * (1 / 20) * 0.5))
   \<and> displacement 3 4 2 0 30 (1 / 20) = Some 0
   \<and> int 0 < 1 \<and> 3 * 0 + 2 < length [Some (3::real), Some 0, Some 4]
   \<and> [Some (3::real), Some 0, Some 4] ! (3 * 0) = Some 3
   \<and> [Some (3::real), Some 0, Some 4] ! (3 * 0 + 2) = Some 4
   \<and> GreatWave_useFrame True True 2 (13 / 20) 30 (1 / 20) 1 [Some 3, Some 0, Some 4] ! (3 * 0 + 1)
        = displacement 3 4 2 (13 / 20) 30 (1 / 20)
   \<and> GreatWaveSurface_useFrame True True 2 (13 / 20) 30 (1 / 20) [Some 3, Some 0, Some 4]
          ! (3 * 0 + 1)
        = displacement 3 4 2 (13 / 20) 30 (1 / 20)"
  using GreatWave_displacement_formula[of 3 4 30 2 "1 / 20" "13 / 20" 0 1
      "[Some 3, Some 0, Some 4]"]
  by (simp add: Let_def)

text \<open>
  Claim C6 as stated fails for \<open>waveLength = 0\<close>: with amplitude \<open>0\<close> the displacement at
  \<open>(1, 0)\<close> is not \<open>0\<close> (the quotient \<open>distance / waveLength\<close> is not finite, and neither
  is the sum). It fails as well for a wave length so small that the quotient overflows:
  with \<open>waveLength = 10^-308\<close> and amplitude \<open>0\<close> the displacement at \<open>(100, 0)\<close> is not \<open>0\<close>.
\<close>

theorem GreatWave_zero_amplitude_counterexample:
  "displacement 1 0 0 0 0 (1/20) \<noteq> Some 0
   \<and> displacement 100 0 0 0 (1 / 10 ^ 308) (1/20) \<noteq> Some 0"
proof -
  have sq: "sqrt (10000 :: real) = 100"
    by (rule real_sqrt_unique) (simp_all add: power2_eq_square)
  have "displacement 100 0 0 0 (1 / 10 ^ 308) (1/20) = None"
    by (simp add: displacement_def js_div_def dbl_def dbl_overflow_def sq)
  then show ?thesis by (simp add: displacement_nonfinite)
qed

text \<open>
  Claim C10, as amended. For every point \<open>(x, z)\<close> a position buffer can hold
  (\<open>|x|, |z| \<le> 10^39\<close>), every time and all parameters with \<open>|waveLength| \<ge> 10^-200\<close>,
  \<open>|time * waveSpeed| \<le> 10^300\<close> and \<open>|waveAmplitude| \<le> 10^38\<close> (so that the wave length is
  not zero and no intermediate result overflows), the Great Wave displacement is a finite
  number of absolute value at most \<open>1.3 * |waveAmplitude|\<close> (the radial term is bounded by
  \<open>|waveAmplitude|\<close>, the angular term by \<open>0.3 * |waveAmplitude|\<close>) up to a rounding
  allowance of \<open>1.3 * 10^-6 * |waveAmplitude| + 10^-40\<close>, and so is the height the particle
  loop stores for every particle. Over the reals the bound \<open>1.3 * |waveAmplitude|\<close> is met
  with equality where both sines are \<open>1\<close>, so the rounding of the double operations and of
  the \<open>Float32Array\<close> store, which \<open>dbl\<close> and \<open>f32\<close> leave out, can put the stored number
  above it by a relative \<open>2^-24\<close>, or by \<open>2^-150\<close> for the smallest numbers; the allowance
  covers both.
\<close>

theorem GreatWave_displacement_bound:
  assumes "\<bar>x\<bar> \<le> 10 ^ 39" and "\<bar>z\<bar> \<le> 10 ^ 39" and "1 / 10 ^ 200 \<le> \<bar>waveLength\<bar>"
    and "\<bar>time * waveSpeed\<bar> \<le> 10 ^ 300" and "\<bar>waveAmplitude\<bar> \<le> 10 ^ 38"
  shows "(\<exists>d. displacement x z time waveAmplitude waveLength waveSpeed = Some d
           \<and> \<bar>d\<bar> \<le> 1.3 * \<bar>waveAmplitude\<bar> * (1 + 1 / 10 ^ 6) + 1 / 10 ^ 40)
    \<and> (int i < particleCount \<and> 3 * i + 2 < length array
         \<and> array ! (3 * i) = Some x \<and> array ! (3 * i + 2) = Some z \<longrightarrow>
       (\<exists>d. GreatWave_useFrame True True time waveAmplitude waveLength waveSpeed
               particleCount array ! (3 * i + 1) = Some d
            \<and> \<bar>d\<bar> \<le> 1.3 * \<bar>waveAmplitude\<bar> * (1 + 1 / 10 ^ 6) + 1 / 10 ^ 40))"
proof -
  define r where "r = sin ((sqrt (x * x + z * z) / waveLength - time * waveSpeed) * pi * 2)"
  define a where "a = sin (atan2 z x * 2 + time * waveSpeed * 0.5)"
  define d where "d = r * waveAmplitude + a * waveAmplitude * 0.3"
  have d: "displacement x z time waveAmplitude waveLength waveSpeed = Some d"
    unfolding d_def r_def a_def by (rule displacement_finite(1)[OF assms])
  have st: "f32 (Some d) = Some d"
    using displacement_finite(2)[OF assms] unfolding d .
  have "\<bar>r * waveAmplitude + a * waveAmplitude * (3 / 10)\<bar> \<le> 13 / 10 * \<bar>waveAmplitude\<bar>"
    unfolding r_def a_def by (intro two_sines) simp_all
  then have t: "\<bar>d\<bar> \<le> 13 / 10 * \<bar>waveAmplitude\<bar>" unfolding d_def by simp
  have "0 \<le> 13 / 10 * \<bar>waveAmplitude\<bar> * (1 / 10 ^ 6) + 1 / 10 ^ 40" by simp
  with t have b: "\<bar>d\<bar> \<le> 1.3 * \<bar>waveAmplitude\<bar> * (1 + 1 / 10 ^ 6) + 1 / 10 ^ 40"
    by (simp add: algebra_simps)
  have "int i < particleCount \<and> 3 * i + 2 < length array
         \<and> array ! (3 * i) = Some x \<and> array ! (3 * i + 2) = Some z \<longrightarrow>
       GreatWave_useFrame True True time waveAmplitude waveLength waveSpeed
               particleCount array ! (3 * i + 1) = Some d"
    using GreatWave_useFrame_particle[of i particleCount array x z time waveAmplitude waveLength
        waveSpeed]
    unfolding d st by blast
  with d b show ?thesis by blast
qed

theorem GreatWave_displacement_bound_witness:
  "\<bar>25 :: real\<bar> \<le> 10 ^ 39 \<and> \<bar>0 :: real\<bar> \<le> 10 ^ 39 \<and> (1 :: real) / 10 ^ 200 \<le> \<bar>30\<bar>
   \<and> \<bar>2 * (1 / 20) :: real\<bar> \<le> 10 ^ 300 \<and> \<bar>13 / 20 :: real\<bar> \<le> 10 ^ 38
   \<and> (\<exists>d. displacement 25 0 2 (13/20) 30 (1/20) = Some d
          \<and> \<bar>d\<bar> \<le> 1.3 * \<bar>13/20\<bar> * (1 + 1 / 10 ^ 6) + 1 / 10 ^ 40)
   \<and> int 0 < 1 \<and> 3 * 0 + 2 < length [Some (25::real), Some 0, Some 0]
   \<and> [Some (25::real), Some 0, Some 0] ! (3 * 0) = Some 25
   \<and> [Some (25::real), Some 0, Some 0] ! (3 * 0 + 2) = Some 0
   \<and> (\<exists>d. GreatWave_useFrame True True 2 (13/20) 30 (1/20) 1
             [Some 25, Some 0, Some 0] ! (3 * 0 + 1) = Some d
          \<and> \<bar>d\<bar> \<le> 1.3 * \<bar>13/20\<bar> * (1 + 1 / 10 ^ 6) + 1 / 10 ^ 40)"
  using GreatWave_displacement_bound[of 25 0 30 2 "1/20" "13/20" 0 1
      "[Some 25, Some 0, Some 0]"]
  by simp

text \<open>
  Claim C10 as stated fails for a negative amplitude: with \<open>waveAmplitude = -1\<close> and
  \<open>waveLength = 30\<close> the displacement at \<open>(7.5, 0)\<close>, time \<open>0\<close>, is \<open>-1\<close>, and its absolute
  value is not at most \<open>1.3 * waveAmplitude\<close>. With \<open>waveLength = 0\<close> the displacement
  (here at \<open>(1, 0)\<close>, amplitude \<open>1\<close>) is not a finite number, so it meets no bound; nor is it
  with \<open>waveLength = 10^-308\<close> at \<open>(100, 0)\<close>, where \<open>distance / waveLength\<close> overflows.
\<close>

theorem GreatWave_displacement_bound_counterexample:
  "displacement (15/2) 0 0 (- 1) 30 (1/20) = Some (- 1)
   \<and> \<not> (\<bar>- 1 :: real\<bar> \<le> 1.3 * (- 1))
   \<and> displacement 1 0 0 1 0 (1/20) = None
   \<and> displacement 100 0 0 1 (1 / 10 ^ 308) (1/20) = None"
proof -
  have sq: "sqrt (225 / 4) = (15 / 2 :: real)"
    by (rule real_sqrt_unique) (simp_all add: power2_eq_square)
  have sq': "sqrt (10000 :: real) = 100"
    by (rule real_sqrt_unique) (simp_all add: power2_eq_square)
  have a: "displacement (15/2) 0 0 (- 1) 30 (1/20) = Some (- 1)"
    by (subst displacement_finite(1)) (simp_all add: atan2_def sq)
  have b: "displacement 100 0 0 1 (1 / 10 ^ 308) (1/20) = None"
    by (simp add: displacement_def js_div_def dbl_def dbl_overflow_def sq')
  from a b show ?thesis by (simp add: displacement_nonfinite)
qed

section \<open>Properties of the proximity graph\<close>

lemma connect_inner_length:
  "int (length (connect_inner pp d m count i j ls)) \<le> max (int (length ls) + 1) m"
proof (induction pp d m count i j ls rule: connect_inner.induct)
  case (1 pp d m count i j ls)
  show ?case
  proof (cases "j < count")
    case False
    then show ?thesis by (subst connect_inner.simps) simp
  next
    case j: True
    show ?thesis
    proof (cases "distanceTo (pp ! i) (pp ! j) < d")
      case False
      then have "connect_inner pp d m count i j ls = connect_inner pp d m count i (j + 1) ls"
        using j by (subst connect_inner.simps) simp
      then show ?thesis using "1.IH"(2)[OF j refl] False by simp
    next
      case near: True
      show ?thesis
      proof (cases "m \<le> int (length (ls @ [(i, j)]))")
        case True
        then have "connect_inner pp d m count i j ls = ls @ [(i, j)]"
          using j near by (subst connect_inner.simps) (simp add: Let_def)
        then show ?thesis by simp
      next
        case False
        then have "connect_inner pp d m count i j ls
                     = connect_inner pp d m count i (j + 1) (ls @ [(i, j)])"
          using j near by (subst connect_inner.simps) (simp add: Let_def)
        then show ?thesis using "1.IH"(1)[OF j refl near refl False] False by simp
      qed
    qed
  qed
qed

lemma connect_outer_length:
  "int (length (connect_outer pp d m count i ls)) \<le> max (int (length ls) + 1) m"
proof (induction pp d m count i ls rule: connect_outer.induct)
  case (1 pp d m count i ls)
  show ?case
  proof (cases "i < count")
    case False
    then show ?thesis by (subst connect_outer.simps) simp
  next
    case i: True
    define scanned where "scanned = connect_inner pp d m count i (i + 1) ls"
    have s: "int (length scanned) \<le> max (int (length ls) + 1) m"
      unfolding scanned_def by (rule connect_inner_length)
    show ?thesis
    proof (cases "m \<le> int (length scanned)")
      case True
      then have "connect_outer pp d m count i ls = scanned"
        using i by (subst connect_outer.simps) (simp add: Let_def scanned_def)
      then show ?thesis using s by simp
    next
      case False
      then have "connect_outer pp d m count i ls = connect_outer pp d m count (i + 1) scanned"
        using i by (subst connect_outer.simps) (simp add: Let_def scanned_def)
      then show ?thesis 
        using "1.IH"[OF i scanned_def[symmetric, THEN sym]] False s by (simp add: scanned_def)
    qed
  qed
qed


lemma connect_inner_new:
  "\<exists>new. connect_inner pp d m count i j ls = ls @ new \<and> distinct new \<and>
     (\<forall>p \<in> set new. fst p = i \<and> j \<le> snd p \<and> snd p < count
        \<and> distanceTo (pp ! fst p) (pp ! snd p) < d)"
proof (induction pp d m count i j ls rule: connect_inner.induct)
  case (1 pp d m count i j ls)
  show ?case
  proof (cases "j < count")
    case False
    then have "connect_inner pp d m count i j ls = ls @ []"
      by (subst connect_inner.simps) simp
    then show ?thesis by (intro exI[of _ "[]"]) simp
  next
    case j: True
    show ?thesis
    proof (cases "distanceTo (pp ! i) (pp ! j) < d")
      case False
      then have eq: "connect_inner pp d m count i j ls = connect_inner pp d m count i (j + 1) ls"
        using j by (subst connect_inner.simps) simp
      from "1.IH"(2)[OF j refl False] obtain new where
        n: "connect_inner pp d m count i (j + 1) ls = ls @ new" "distinct new"
          "\<forall>p \<in> set new. fst p = i \<and> j + 1 \<le> snd p \<and> snd p < count
             \<and> distanceTo (pp ! fst p) (pp ! snd p) < d"
        by blast
      show ?thesis unfolding eq using n by (intro exI[of _ new]) auto
    next
      case near: True
      show ?thesis
      proof (cases "m \<le> int (length (ls @ [(i, j)]))")
        case True
        then have "connect_inner pp d m count i j ls = ls @ [(i, j)]"
          using j near by (subst connect_inner.simps) (simp add: Let_def)
        then show ?thesis using j near by (intro exI[of _ "[(i, j)]"]) simp
      next
        case False
        then have eq: "connect_inner pp d m count i j ls
                     = connect_inner pp d m count i (j + 1) (ls @ [(i, j)])"
          using j near by (subst connect_inner.simps) (simp add: Let_def)
        from "1.IH"(1)[OF j refl near refl False] obtain new where
          n: "connect_inner pp d m count i (j + 1) (ls @ [(i, j)]) = (ls @ [(i, j)]) @ new"
            "distinct new"
            "\<forall>p \<in> set new. fst p = i \<and> j + 1 \<le> snd p \<and> snd p < count
               \<and> distanceTo (pp ! fst p) (pp ! snd p) < d"
          by blast
        from n(3) have "(i, j) \<notin> set new" by fastforce
        then show ?thesis unfolding eq using n j near 
          by (intro exI[of _ "(i, j) # new"]) auto
      qed
    qed
  qed
qed

lemma connect_outer_new:
  "\<exists>new. connect_outer pp d m count i ls = ls @ new \<and> distinct new \<and>
     (\<forall>p \<in> set new. i \<le> fst p \<and> fst p < snd p \<and> snd p < count
        \<and> distanceTo (pp ! fst p) (pp ! snd p) < d)"
proof (induction pp d m count i ls rule: connect_outer.induct)
  case (1 pp d m count i ls)
  show ?case
  proof (cases "i < count")
    case False
    then have "connect_outer pp d m count i ls = ls @ []"
      by (subst connect_outer.simps) simp
    then show ?thesis by (intro exI[of _ "[]"]) simp
  next
    case i: True
    define scanned where "scanned = connect_inner pp d m count i (i + 1) ls"
    from connect_inner_new[of pp d m count i "i + 1" ls] obtain new1 where
      n1: "scanned = ls @ new1" "distinct new1"
        "\<forall>p \<in> set new1. fst p = i \<and> i + 1 \<le> snd p \<and> snd p < count
           \<and> distanceTo (pp ! fst p) (pp ! snd p) < d"
      unfolding scanned_def by blast
    show ?thesis
    proof (cases "m \<le> int (length scanned)")
      case True
      then have "connect_outer pp d m count i ls = scanned"
        using i by (subst connect_outer.simps) (simp add: Let_def scanned_def)
      then show ?thesis using n1 by (intro exI[of _ new1]) auto
    next
      case False
      then have eq: "connect_outer pp d m count i ls = connect_outer pp d m count (i + 1) scanned"
        using i by (subst connect_outer.simps) (simp add: Let_def scanned_def)
      from "1.IH"[OF i scanned_def[symmetric, THEN sym]] False obtain new2 where
        n2: "connect_outer pp d m count (i + 1) scanned = scanned @ new2" "distinct new2"
          "\<forall>p \<in> set new2. i + 1 \<le> fst p \<and> fst p < snd p \<and> snd p < count
             \<and> distanceTo (pp ! fst p) (pp ! snd p) < d"
        by (auto simp: scanned_def)
      have disj: "set new1 \<inter> set new2 = {}" using n1(3) n2(3) by fastforce
      show ?thesis unfolding eq n2(1) n1(1) using n1 n2 disj
        by (intro exI[of _ "new1 @ new2"]) auto
    qed
  qed
qed

lemma unordered_inj:
  assumes "\<forall>p \<in> set g. fst p < (snd p :: nat)"
  shows "inj_on (\<lambda>(i, j). {i, j}) (set g)"
proof (rule inj_onI)
  fix p q assume p: "p \<in> set g" and q: "q \<in> set g"
    and e: "(case p of (i, j) \<Rightarrow> {i, j}) = (case q of (i, j) \<Rightarrow> {i, j})"
  obtain a b where pp: "p = (a, b)" by (cases p)
  obtain c d where qq: "q = (c, d)" by (cases q)
  from assms p q pp qq have lt: "a < b" "c < d" by auto
  from e pp qq have "{a, b} = {c, d}" by simp
  with lt have "a = c \<and> b = d" by (auto simp: doubleton_eq_iff)
  then show "p = q" using pp qq by simp
qed

text \<open>
  Claim C2, as amended. For every list of particle positions, every connection distance and
  every integer cap \<open>maxConnections\<close>, the proximity graph the two loops build has at most
  \<open>max(1, maxConnections)\<close> pairs, hence at most \<open>maxConnections\<close> whenever
  \<open>maxConnections \<ge> 1\<close>; every stored pair \<open>(i, j)\<close> has \<open>i < j\<close> within the list and the
  Euclidean distance of positions \<open>i\<close> and \<open>j\<close> at construction below the connection
  distance; no pair \<open>(i, i)\<close> is stored; no pair is stored twice, and no unordered pair
  \<open>{i, j}\<close> is.
\<close>

theorem build_connections_invariants:
  "int (length (build_connections pp d m)) \<le> max 1 m
   \<and> (\<forall>(i, j) \<in> set (build_connections pp d m).
         i < j \<and> j < length pp \<and> i \<noteq> j \<and> distanceTo (pp ! i) (pp ! j) < d)
   \<and> distinct (build_connections pp d m)
   \<and> distinct (map (\<lambda>(i, j). {i, j}) (build_connections pp d m))"
proof -
  let ?g = "build_connections pp d m"
  have len: "int (length ?g) \<le> max 1 m"
    unfolding build_connections_def using connect_outer_length[of pp d m "length pp" 0 "[]"] by simp
  from connect_outer_new[of pp d m "length pp" 0 "[]"]
  have dist: "distinct ?g"
    and mem: "\<forall>p \<in> set ?g. fst p < snd p \<and> snd p < length pp
                \<and> distanceTo (pp ! fst p) (pp ! snd p) < d"
    unfolding build_connections_def by auto
  from mem have "inj_on (\<lambda>(i, j). {i, j}) (set ?g)" by (intro unordered_inj) simp
  with dist have un: "distinct (map (\<lambda>(i, j). {i, j}) ?g)" by (simp add: distinct_map)
  from mem have mem': "\<forall>(i, j) \<in> set ?g.
         i < j \<and> j < length pp \<and> i \<noteq> j \<and> distanceTo (pp ! i) (pp ! j) < d"
    by auto
  from len mem' dist un show ?thesis by blast
qed


lemma distanceTo_x_axis: "distanceTo (a, y, z) (b, y, z) = \<bar>a - b\<bar>"
  by (simp add: distanceTo_def)

theorem build_connections_invariants_witness:
  "(0, 1) \<in> set (build_connections [(0, 0, 0), (1, 0, 0), (11, 0, 0)] 8 500)
   \<and> (0::nat) < 1 \<and> (1::nat) < length [(0::real, 0::real, 0::real), (1, 0, 0), (11, 0, 0)]
   \<and> distanceTo ([(0, 0, 0), (1, 0, 0), (11, 0, 0)] ! 0) ([(0, 0, 0), (1, 0, 0), (11, 0, 0)] ! 1) < 8
   \<and> int (length (build_connections [(0, 0, 0), (1, 0, 0), (11, 0, 0)] 8 500)) \<le> max 1 500"
proof -
  have g: "build_connections [(0, 0, 0), (1, 0, 0), (11, 0, 0)] 8 500 = [(0, 1)]"
    by (simp add: build_connections_def connect_outer.simps connect_inner.simps
        distanceTo_x_axis Let_def)
  show ?thesis
    using build_connections_invariants[of "[(0, 0, 0), (1, 0, 0), (11, 0, 0)]" 8 500]
    unfolding g by simp
qed

text \<open>
  Claim C2 as stated fails for \<open>maxConnections = 0\<close>: two particles at distance \<open>1\<close> with
  connection distance \<open>8\<close> give one pair, more than the cap. The cap is tested only after
  a pair has been pushed.
\<close>

theorem build_connections_cap_counterexample:
  "\<not> int (length (build_connections [(0, 0, 0), (1, 0, 0)] 8 0)) \<le> 0"
  by (simp add: build_connections_def connect_outer.simps connect_inner.simps
      distanceTo_x_axis Let_def)

lemma connect_inner_capped:
  "m \<le> int (length ls) + 1 \<Longrightarrow>
   connect_inner pp d m count i j ls =
     ls @ (case find (\<lambda>j'. distanceTo (pp ! i) (pp ! j') < d) [j..<count] of
             None \<Rightarrow> [] | Some j' \<Rightarrow> [(i, j')])"
proof (induction pp d m count i j ls rule: connect_inner.induct)
  case (1 pp d m count i j ls)
  note m = \<open>m \<le> int (length ls) + 1\<close>
  show ?case
  proof (cases "j < count")
    case False
    then show ?thesis by (subst connect_inner.simps) simp
  next
    case j: True
    then have upt: "[j..<count] = j # [j + 1..<count]" by (simp add: upt_conv_Cons)
    show ?thesis
    proof (cases "distanceTo (pp ! i) (pp ! j) < d")
      case False
      then have "connect_inner pp d m count i j ls = connect_inner pp d m count i (j + 1) ls"
        using j by (subst connect_inner.simps) simp
      then show ?thesis using "1.IH"(2)[OF j refl False m] False unfolding upt by simp
    next
      case True
      then have "connect_inner pp d m count i j ls = ls @ [(i, j)]"
        using j m by (subst connect_inner.simps) (simp add: Let_def)
      then show ?thesis using True unfolding upt by simp
    qed
  qed
qed

text \<open>
  Claim C3, as amended. For every list of particle positions, if \<open>maxConnections \<le> 0\<close> the
  build scans the pairs \<open>(0, j)\<close> in index order and returns at most one pair, the first
  \<open>(0, j)\<close> whose distance is below the connection distance; the graph is empty only when
  no particle is that close to particle \<open>0\<close> (or there are fewer than two particles).
\<close>

theorem build_connections_nonpositive_cap:
  assumes "maxConnections \<le> 0"
  shows "build_connections pp d maxConnections =
     (case find (\<lambda>j. distanceTo (pp ! 0) (pp ! j) < d) [1..<length pp] of
        None \<Rightarrow> [] | Some j \<Rightarrow> [(0, j)])"
proof (cases "0 < length pp")
  case False
  then show ?thesis by (simp add: build_connections_def connect_outer.simps)
next
  case True
  have inner: "connect_inner pp d maxConnections (length pp) 0 (0 + 1) [] =
     (case find (\<lambda>j. distanceTo (pp ! 0) (pp ! j) < d) [1..<length pp] of
        None \<Rightarrow> [] | Some j \<Rightarrow> [(0, j)])"
    using connect_inner_capped[of maxConnections "[]" pp d "length pp" 0 1] assms by simp
  show ?thesis
    unfolding build_connections_def
    by (subst connect_outer.simps) (use True assms in \<open>simp add: Let_def inner[simplified]\<close>)
qed

theorem build_connections_nonpositive_cap_witness:
  "(- 1 :: int) \<le> 0 \<and>
   build_connections [(0, 0, 0), (10, 0, 0), (1, 0, 0), (2, 0, 0)] 8 (- 1) = [(0, 2)]"
  using build_connections_nonpositive_cap[of "- 1" "[(0, 0, 0), (10, 0, 0), (1, 0, 0), (2, 0, 0)]" 8]
  by (simp add: distanceTo_x_axis upt_rec)

text \<open>
  Claim C3 as stated fails: with \<open>maxConnections = -5\<close>, two particles at distance \<open>2\<close>
  and connection distance \<open>8\<close>, the graph is not empty.
\<close>

theorem build_connections_nonpositive_cap_counterexample:
  "build_connections [(0, 0, 0), (2, 0, 0)] 8 (- 5) \<noteq> []"
  by (simp add: build_connections_def connect_outer.simps connect_inner.simps
      distanceTo_x_axis Let_def)

section \<open>Properties of the generators\<close>

lemma particle_index:
  fixes n i :: nat
  shows "(n div 3 = i) = (n = 3 * i \<or> n = 3 * i + 1 \<or> n = 3 * i + 2)"
  by arith

lemma particle_next:
  fixes n i :: nat
  assumes "n div 3 \<noteq> i"
  shows "(i \<le> n div 3) = (i + 1 \<le> n div 3)"
  using assms by arith

lemma nth_list_update_total:
  "xs[i := v] ! n = (if n = i \<and> n < length xs then v else xs ! n)"
  by (cases "i < length xs") (auto simp: nth_list_update list_update_beyond)

lemma Galaxy_loop_length:
  "length (fst (Galaxy_loop setHSL random count gR aC bL bS sT i k posBuf colBuf)) = length posBuf
   \<and> length (snd (Galaxy_loop setHSL random count gR aC bL bS sT i k posBuf colBuf)) = length colBuf"
proof (induction setHSL random count gR aC bL bS sT i k posBuf colBuf rule: Galaxy_loop.induct)
  case (1 setHSL random count gR aC bL bS sT i k posBuf colBuf)
  show ?case
  proof (cases "int i < count")
    case False
    then show ?thesis by (subst (1 2) Galaxy_loop.simps) simp
  next
    case True
    obtain x y z k' where p: "Galaxy_position random k gR aC bL bS sT = ((x, y, z), k')"
      by (metis prod.exhaust)
    obtain r g b where c: "Galaxy_color setHSL random k' gR x z = (r, g, b)"
      by (metis prod.exhaust)
    show ?thesis
      using "1.IH"[OF True p[symmetric] refl refl c[symmetric] refl] True
      by (subst (1 2) Galaxy_loop.simps) (simp add: p c)
  qed
qed

lemma Galaxy_loop_nth:
  assumes "k = Galaxy_calls random gR aC bL bS sT i"
  shows "fst (Galaxy_loop setHSL random count gR aC bL bS sT i k posBuf colBuf) ! n =
     (if i \<le> n div 3 \<and> int (n div 3) < count \<and> n < length posBuf
      then f32 (coordinate (fst (Galaxy_position random
                (Galaxy_calls random gR aC bL bS sT (n div 3)) gR aC bL bS sT)) (n mod 3))
      else posBuf ! n)"
  using assms
proof (induction setHSL random count gR aC bL bS sT i k posBuf colBuf rule: Galaxy_loop.induct)
  case (1 setHSL random count gR aC bL bS sT i k posBuf colBuf)
  note k = \<open>k = Galaxy_calls random gR aC bL bS sT i\<close>
  show ?case
  proof (cases "int i < count")
    case False
    then have "\<not> (i \<le> n div 3 \<and> int (n div 3) < count)" by arith
    then show ?thesis using False by (subst Galaxy_loop.simps) auto
  next
    case True
    obtain x y z k' where p: "Galaxy_position random k gR aC bL bS sT = ((x, y, z), k')"
      by (metis prod.exhaust)
    obtain r g b where c: "Galaxy_color setHSL random k' gR x z = (r, g, b)"
      by (metis prod.exhaust)
    define pb where "pb = posBuf[i * 3 := f32 x, i * 3 + 1 := f32 y, i * 3 + 2 := f32 z]"
    define cb where "cb = colBuf[i * 3 := Some r, i * 3 + 1 := Some g, i * 3 + 2 := Some b]"
    have k3: "k' + 3 = Galaxy_calls random gR aC bL bS sT (i + 1)"
      using p k by simp
    have eq: "Galaxy_loop setHSL random count gR aC bL bS sT i k posBuf colBuf
        = Galaxy_loop setHSL random count gR aC bL bS sT (i + 1) (k' + 3) pb cb"
      using True by (subst Galaxy_loop.simps) (simp add: p c pb_def cb_def)
    have IH: "fst (Galaxy_loop setHSL random count gR aC bL bS sT (i + 1) (k' + 3) pb cb) ! n =
       (if i + 1 \<le> n div 3 \<and> int (n div 3) < count \<and> n < length pb
        then f32 (coordinate (fst (Galaxy_position random
                  (Galaxy_calls random gR aC bL bS sT (n div 3)) gR aC bL bS sT)) (n mod 3))
        else pb ! n)"
      using "1.IH"[OF True p[symmetric] refl refl c[symmetric] refl k3]
      by (simp add: pb_def cb_def)
    have lp: "length pb = length posBuf" by (simp add: pb_def)
    show ?thesis
    proof (cases "n div 3 = i")
      case here: True
      then have ni: "\<not> i + 1 \<le> n div 3" by simp
      from here have "n = 3 * i \<or> n = 3 * i + 1 \<or> n = 3 * i + 2"
        by (simp add: particle_index)
      moreover have "(3 * i) mod 3 = 0" "(3 * i + 1) mod 3 = 1" "(3 * i + 2) mod 3 = 2"
        by arith+
      ultimately have "pb ! n =
          (if n < length posBuf then f32 (coordinate (x, y, z) (n mod 3)) else posBuf ! n)"
        unfolding pb_def coordinate_def
        by (elim disjE) (simp_all add: nth_list_update_total mult.commute)
      then show ?thesis
        unfolding eq IH lp using here ni True p k by auto
    next
      case other: False
      then have "n \<noteq> 3 * i" "n \<noteq> 3 * i + 1" "n \<noteq> 3 * i + 2"
        using particle_index[of n i] by auto
      then have nth: "pb ! n = posBuf ! n" by (simp add: pb_def mult.commute)
      show ?thesis unfolding eq IH lp nth using particle_next[OF other] by auto
    qed
  qed
qed

lemma jitter_small:
  fixes u :: real
  assumes "0 \<le> u" and "u < 1"
  shows "\<bar>(u - 0.5) * 0.3\<bar> \<le> 3 / 20"
proof -
  have e: "(u - 0.5) * 0.3 = 3 / 10 * u - 3 / 20" by (simp add: field_simps)
  have "3 / 10 * u - 3 / 20 \<le> 3 / 20" "- (3 / 10 * u - 3 / 20) \<le> 3 / 20"
    using assms by linarith+
  then show ?thesis unfolding e abs_le_iff by blast
qed

lemma polar_radius:
  fixes r t :: real
  shows "sqrt ((cos t * r)\<^sup>2 + (sin t * r)\<^sup>2) = \<bar>r\<bar>"
proof -
  have "(cos t * r)\<^sup>2 + (sin t * r)\<^sup>2 = ((cos t)\<^sup>2 + (sin t)\<^sup>2) * r\<^sup>2"
    by (simp only: power_mult_distrib distrib_right)
  then show ?thesis by simp
qed

lemma sphere:
  fixes r phi :: real
  shows "(r * sin phi)\<^sup>2 + (r * cos phi)\<^sup>2 = r\<^sup>2 * ((sin phi)\<^sup>2 + (cos phi)\<^sup>2)"
    by (simp only: power_mult_distrib distrib_left)

lemma planar_jitter:
  fixes a b c d R :: real
  assumes "sqrt (a\<^sup>2 + b\<^sup>2) \<le> R" and "\<bar>c\<bar> \<le> 3 / 20" and "\<bar>d\<bar> \<le> 3 / 20"
  shows "sqrt ((a + c)\<^sup>2 + (b + d)\<^sup>2) \<le> R + 3 / 10"
proof -
  have "sqrt ((a + c)\<^sup>2 + (b + d)\<^sup>2) \<le> sqrt (a\<^sup>2 + b\<^sup>2) + sqrt (c\<^sup>2 + d\<^sup>2)"
    by (rule real_sqrt_sum_squares_triangle_ineq)
  moreover have "sqrt (c\<^sup>2 + d\<^sup>2) \<le> \<bar>c\<bar> + \<bar>d\<bar>"
    by (rule sqrt_sum_squares_le_sum_abs)
  ultimately show ?thesis using assms by linarith
qed

lemma flattened_sphere_radius:
  fixes r phi theta :: real
  shows "sqrt ((r * sin phi * cos theta)\<^sup>2 + (r * cos phi)\<^sup>2) \<le> \<bar>r\<bar>"
proof -
  have "\<bar>r * sin phi * cos theta\<bar> \<le> \<bar>r * sin phi\<bar>"
    using mult_left_le[of "\<bar>cos theta\<bar>" "\<bar>r * sin phi\<bar>"] by (simp add: abs_mult)
  then have "(r * sin phi * cos theta)\<^sup>2 \<le> (r * sin phi)\<^sup>2"
    by (simp only: abs_le_square_iff)
  moreover have "(r * sin phi)\<^sup>2 + (r * cos phi)\<^sup>2 = r\<^sup>2 * ((sin phi)\<^sup>2 + (cos phi)\<^sup>2)"
    by (rule sphere)
  ultimately have "(r * sin phi * cos theta)\<^sup>2 + (r * cos phi)\<^sup>2 \<le> r\<^sup>2" by simp
  then have "sqrt ((r * sin phi * cos theta)\<^sup>2 + (r * cos phi)\<^sup>2) \<le> sqrt (r\<^sup>2)"
    by (rule real_sqrt_le_mono)
  then show ?thesis by simp
qed

lemma bulge_position_bound:
  assumes "0 \<le> radius" and "\<forall>n. 0 \<le> random n \<and> random n < 1"
  shows "\<exists>x y z. bulge_position random k radius = (Some x, Some y, Some z)
           \<and> sqrt (x\<^sup>2 + z\<^sup>2) \<le> radius"
proof -
  from assms(2) have u: "0 \<le> random k" "random k < 1" "0 \<le> random (k + 2)" "random (k + 2) < 1"
    by auto
  define phi where "phi = arccos (2 * random k - 1)"
  define theta where "theta = random (k + 1) * pi * 2"
  define r where "r = radius * (0.3 + random (k + 2) * 0.7)"
  have acos: "js_acos (2 * random k - 1) = Some phi"
    using u by (simp add: js_acos_def phi_def)
  have b: "bulge_position random k radius =
      (Some (r * sin phi * cos theta), Some (r * sin phi * sin theta * 0.3), Some (r * cos phi))"
    by (simp add: bulge_position_def acos Let_def r_def theta_def)
  have "0 \<le> r" unfolding r_def using assms(1) u by (intro mult_nonneg_nonneg) simp_all
  moreover have "r \<le> radius * 1" unfolding r_def using assms(1) u
    by (intro mult_left_mono) simp_all
  ultimately have "\<bar>r\<bar> \<le> radius" by simp
  with flattened_sphere_radius[of r phi theta]
  have "sqrt ((r * sin phi * cos theta)\<^sup>2 + (r * cos phi)\<^sup>2) \<le> radius" by linarith
  with b show ?thesis by blast
qed

lemma spiralAngle_finite:
  assumes "1 / 10 ^ 100 \<le> \<bar>armCount\<bar>" and "1 / 10 ^ 100 \<le> bulgeSize"
    and "bulgeSize \<le> radius" and "radius \<le> 10 ^ 6" and "\<bar>spiralTightness\<bar> \<le> 10 ^ 100"
    and "0 \<le> u" and "u < 1"
  shows "\<exists>sa. spiralAngle (u * pi * 2) radius armCount bulgeSize spiralTightness = Some sa
           \<and> \<bar>sa\<bar> \<le> 10 ^ 207"
proof -
  have c: "armCount \<noteq> 0" "0 < \<bar>armCount\<bar>" using assms(1) by auto
  have b: "0 < bulgeSize" using assms(2) by (rule less_le_trans[rotated]) simp
  define v where "v = u * armCount"
  define armIndex :: real where "armIndex = of_int \<lfloor>v\<rfloor>"
  define q where "q = armIndex / armCount"
  define ratio where "ratio = radius / bulgeSize"
  define t where "t = ln ratio * spiralTightness"
  have ang: "u * pi * 2 / (pi * 2) = u" by simp
  have "\<bar>v\<bar> \<le> 1 * \<bar>armCount\<bar>"
    unfolding v_def abs_mult using assms(6,7) by (intro mult_right_mono) simp_all
  moreover have "v - 1 < armIndex" "armIndex \<le> v" unfolding armIndex_def by simp_all
  ultimately have ai: "\<bar>armIndex\<bar> \<le> \<bar>armCount\<bar> + 1" by linarith
  have "\<bar>q\<bar> = \<bar>armIndex\<bar> / \<bar>armCount\<bar>" unfolding q_def by simp
  also have "\<dots> \<le> (\<bar>armCount\<bar> + 1) / \<bar>armCount\<bar>"
    using ai c by (intro divide_right_mono) simp_all
  also have "\<dots> = 1 + 1 / \<bar>armCount\<bar>" using c by (simp add: field_simps)
  also have "\<dots> \<le> 1 + 1 / (1 / 10 ^ 100)"
    using assms(1) by (intro add_left_mono divide_left_mono) simp_all
  finally have qb: "\<bar>q\<bar> \<le> 1 + 10 ^ 100" by simp
  then have "dbl q = Some q" by (intro dbl_Some) simp
  then have q: "js_div armIndex armCount = Some q"
    using c by (simp add: js_div_def q_def)
  have "\<bar>q * pi * 2\<bar> = \<bar>q\<bar> * pi * 2" by (simp add: abs_mult)
  also have "\<dots> \<le> (1 + 10 ^ 100) * 4 * 2"
    using qb pi_less_4 by (intro mult_mono) simp_all
  finally have ab: "\<bar>q * pi * 2\<bar> \<le> 10 ^ 102" by simp
  then have a: "dbl (q * pi * 2) = Some (q * pi * 2)" by (intro dbl_Some) simp
  have r1: "1 \<le> ratio" unfolding ratio_def using b assms(3) by simp
  have "ratio \<le> 10 ^ 6 / (1 / 10 ^ 100)"
    unfolding ratio_def using assms(2,3,4) b by (intro frac_le) simp_all
  then have rb: "ratio \<le> 10 ^ 106" by simp
  have "dbl ratio = Some ratio" using r1 rb by (intro dbl_Some) simp
  then have r: "js_div radius bulgeSize = Some ratio"
    using b by (simp add: js_div_def ratio_def)
  have l: "js_log ratio = Some (ln ratio)" using r1 by (simp add: js_log_def)
  have l0: "0 \<le> ln ratio" using r1 by simp
  have "ln ratio \<le> ratio - 1" using r1 by (intro ln_le_minus_one) simp
  with rb have lb: "ln ratio \<le> 10 ^ 106" by simp
  have "\<bar>t\<bar> = ln ratio * \<bar>spiralTightness\<bar>" unfolding t_def using l0 by (simp add: abs_mult)
  also have "\<dots> \<le> 10 ^ 106 * 10 ^ 100"
    using lb l0 assms(5) by (intro mult_mono) simp_all
  finally have tb: "\<bar>t\<bar> \<le> 10 ^ 206" by simp
  then have t: "dbl (ln ratio * spiralTightness) = Some t"
    unfolding t_def by (intro dbl_Some) simp
  have sb: "\<bar>q * pi * 2 + t\<bar> \<le> 10 ^ 207" using ab tb by simp
  then have sa: "dbl (q * pi * 2 + t) = Some (q * pi * 2 + t)" by (intro dbl_Some) simp
  have "spiralAngle (u * pi * 2) radius armCount bulgeSize spiralTightness
      = Some (q * pi * 2 + t)"
    unfolding spiralAngle_def Let_def ang v_def[symmetric] armIndex_def[symmetric]
    by (simp only: q a r l t sa option.case)
  with sb show ?thesis by blast
qed

lemma spiral_position_bound:
  assumes "1 / 10 ^ 100 \<le> \<bar>armCount\<bar>" and "1 / 10 ^ 100 \<le> bulgeSize"
    and "bulgeSize \<le> radius" and "radius < galaxyRadius" and "galaxyRadius \<le> 10 ^ 6"
    and "\<bar>spiralTightness\<bar> \<le> 10 ^ 100" and "0 \<le> u" and "u < 1"
  shows "\<exists>x y z. spiral_position random k (u * pi * 2) radius galaxyRadius armCount barLength
                bulgeSize spiralTightness = (Some x, Some y, Some z)
           \<and> sqrt (x\<^sup>2 + z\<^sup>2) = radius"
proof -
  have rb: "radius \<le> 10 ^ 6" using assms(4,5) by simp
  from spiralAngle_finite[OF assms(1-3) rb assms(6-8)] obtain sa where
    sa: "spiralAngle (u * pi * 2) radius armCount bulgeSize spiralTightness = Some sa"
    and sab: "\<bar>sa\<bar> \<le> 10 ^ 207" by blast
  have b: "0 < bulgeSize" using assms(2) by (rule less_le_trans[rotated]) simp
  define n where "n = radius - bulgeSize"
  define d where "d = galaxyRadius - bulgeSize"
  define nr where "nr = n / d"
  have n0: "0 \<le> n" "n < d" "0 < d" unfolding n_def d_def using assms(3,4) by simp_all
  have "\<bar>n\<bar> \<le> 10 ^ 6" "\<bar>d\<bar> \<le> 10 ^ 6" using n0 b assms(5) unfolding n_def d_def by simp_all
  then have "dbl n = Some n" "dbl d = Some d" by (intro dbl_Some; simp)+
  then have nd: "dbl (radius - bulgeSize) = Some n" "dbl (galaxyRadius - bulgeSize) = Some d"
    unfolding n_def d_def by simp_all
  have nrb: "0 \<le> nr" "nr < 1" unfolding nr_def using n0 by simp_all
  then have "dbl nr = Some nr" by (intro dbl_Some) simp
  then have nr: "js_div n d = Some nr"
    using n0 by (simp add: js_div_def nr_def)
  define bi where "bi = (if radius < barLength then cos (u * pi * 2 * 2) * (1 - nr) else 0)"
  define fa where "fa = sa + bi * 0.3"
  have bi: "(if radius < barLength
             then map_option (\<lambda>nr. cos (u * pi * 2 * 2) * (1 - nr)) (Some nr)
             else Some 0) = Some bi"
    "(if radius < barLength then Some (cos (u * pi * 2 * 2) * (1 - nr)) else Some 0) = Some bi"
    by (simp_all add: bi_def)
  have "\<bar>cos (u * pi * 2 * 2) * (1 - nr)\<bar> \<le> 1 * 1"
    unfolding abs_mult using nrb by (intro mult_mono) simp_all
  then have bib: "\<bar>bi\<bar> \<le> 1" unfolding bi_def by simp
  have "\<bar>fa\<bar> \<le> 10 ^ 207 + 1" unfolding fa_def using sab bib by simp
  then have "dbl fa = Some fa" by (intro dbl_Some) simp
  then have fad: "dbl (sa + bi * 0.3) = Some fa" unfolding fa_def .
  have p: "spiral_position random k (u * pi * 2) radius galaxyRadius armCount barLength
                bulgeSize spiralTightness =
      (Some (cos fa * radius), Some ((random k - 0.5) * 0.4 * (1 - nr * 0.5)),
       Some (sin fa * radius))"
    unfolding spiral_position_def Let_def
    by (simp only: sa nd nr bi fad prod.case option.case option.map)
  have "0 \<le> radius" using assms b by simp
  then have "sqrt ((cos fa * radius)\<^sup>2 + (sin fa * radius)\<^sup>2) = radius"
    by (simp add: polar_radius)
  with p show ?thesis by blast
qed

lemma Galaxy_position_bound:
  assumes "0 \<le> galaxyRadius" and "galaxyRadius \<le> 10 ^ 6" and "1 / 10 ^ 100 \<le> bulgeSize"
    and "1 / 10 ^ 100 \<le> \<bar>armCount\<bar>" and "\<bar>spiralTightness\<bar> \<le> 10 ^ 100"
    and "\<forall>n. 0 \<le> random n \<and> random n < 1"
  shows "\<exists>x y z k'. Galaxy_position random k galaxyRadius armCount barLength bulgeSize
                spiralTightness = ((Some x, Some y, Some z), k')
           \<and> sqrt (x\<^sup>2 + z\<^sup>2) \<le> galaxyRadius + 0.3
           \<and> (random (k + 1) * galaxyRadius < bulgeSize \<longrightarrow>
                 sqrt (x\<^sup>2 + z\<^sup>2) \<le> bulgeSize + 0.3)"
proof -
  define radius where "radius = random (k + 1) * galaxyRadius"
  from assms(6) have u: "0 \<le> random (k + 1)" "random (k + 1) < 1" by auto
  from assms(6) have u0: "0 \<le> random k" "random k < 1" by auto
  have b: "0 < bulgeSize" using assms(3) by (rule less_le_trans[rotated]) simp
  have r0: "0 \<le> radius" unfolding radius_def using u assms(1) by simp
  have rle: "radius \<le> galaxyRadius"
    unfolding radius_def using u assms(1) mult_right_mono[of "random (k + 1)" 1 galaxyRadius]
    by simp
  show ?thesis
  proof (cases "radius < bulgeSize")
    case True
    from bulge_position_bound[OF r0 assms(6), of "k + 2"] obtain x y z where
      b: "bulge_position random (k + 2) radius = (Some x, Some y, Some z)"
      and d: "sqrt (x\<^sup>2 + z\<^sup>2) \<le> radius" by blast
    let ?jx = "(random (k + 5) - 0.5) * 0.3" and ?jz = "(random (k + 7) - 0.5) * 0.3"
    have j: "\<bar>?jx\<bar> \<le> 3 / 20" "\<bar>?jz\<bar> \<le> 3 / 20" by (rule jitter_small; use assms(6) in blast)+
    have p: "Galaxy_position random k galaxyRadius armCount barLength bulgeSize spiralTightness =
        ((Some (x + ?jx), Some (y + (random (k + 6) - 0.5) * 0.2), Some (z + ?jz)), k + 8)"
      using True b by (simp add: Galaxy_position_def Let_def radius_def)
    from planar_jitter[OF d j] have "sqrt ((x + ?jx)\<^sup>2 + (z + ?jz)\<^sup>2) \<le> radius + 0.3" .
    with True rle have "sqrt ((x + ?jx)\<^sup>2 + (z + ?jz)\<^sup>2) \<le> galaxyRadius + 0.3"
      "sqrt ((x + ?jx)\<^sup>2 + (z + ?jz)\<^sup>2) \<le> bulgeSize + 0.3" by simp_all
    with p show ?thesis by blast
  next
    case False
    then have ge: "bulgeSize \<le> radius" by simp
    have lt: "radius < galaxyRadius"
    proof -
      from ge b have "0 < radius" by simp
      then have "0 < galaxyRadius" unfolding radius_def using u assms(1)
        by (cases "galaxyRadius = 0") simp_all
      then show ?thesis unfolding radius_def using u by simp
    qed
    from spiral_position_bound[OF assms(4,3) ge lt assms(2,5) u0, of random "k + 2" barLength]
    obtain x y z where
      b: "spiral_position random (k + 2) (random k * pi * 2) radius galaxyRadius armCount barLength
            bulgeSize spiralTightness = (Some x, Some y, Some z)"
      and d: "sqrt (x\<^sup>2 + z\<^sup>2) = radius" by blast
    let ?jx = "(random (k + 3) - 0.5) * 0.3" and ?jz = "(random (k + 5) - 0.5) * 0.3"
    have j: "\<bar>?jx\<bar> \<le> 3 / 20" "\<bar>?jz\<bar> \<le> 3 / 20" by (rule jitter_small; use assms(6) in blast)+
    have p: "Galaxy_position random k galaxyRadius armCount barLength bulgeSize spiralTightness =
        ((Some (x + ?jx), Some (y + (random (k + 4) - 0.5) * 0.2), Some (z + ?jz)), k + 6)"
      using False b by (simp add: Galaxy_position_def Let_def radius_def)
    from d have "sqrt (x\<^sup>2 + z\<^sup>2) \<le> radius" by simp
    from planar_jitter[OF this j] have "sqrt ((x + ?jx)\<^sup>2 + (z + ?jz)\<^sup>2) \<le> radius + 0.3" .
    with lt have "sqrt ((x + ?jx)\<^sup>2 + (z + ?jz)\<^sup>2) \<le> galaxyRadius + 0.3" by simp
    with p False show ?thesis unfolding radius_def by blast
  qed
qed

lemma Galaxy_generate_particle:
  assumes "int i < count"
  shows "\<exists>out. Galaxy_generate setHSL random count gR aC bL bS sT = Inr out
     \<and> (positions out ! (3 * i), positions out ! (3 * i + 1), positions out ! (3 * i + 2))
         = (case fst (Galaxy_position random (Galaxy_calls random gR aC bL bS sT i)
                        gR aC bL bS sT) of
              (x, y, z) \<Rightarrow> (f32 x, f32 y, f32 z))"
proof -
  define buf where "buf = replicate (nat (count * 3)) (Some (0::real))"
  have alloc: "new_Float32Array (count * 3) = Inr buf"
    using assms by (simp add: new_Float32Array_def buf_def)
  define res where "res = Galaxy_loop setHSL random count gR aC bL bS sT 0 0 buf buf"
  have gen: "Galaxy_generate setHSL random count gR aC bL bS sT
      = Inr \<lparr>positions = fst res, colors = snd res\<rparr>"
    by (simp add: Galaxy_generate_def alloc res_def Let_def split: prod.split)
  have len: "3 * i + 2 < length buf" using assms by (simp add: buf_def)
  have nth: "fst res ! n =
     (if int (n div 3) < count \<and> n < length buf
      then f32 (coordinate (fst (Galaxy_position random
                (Galaxy_calls random gR aC bL bS sT (n div 3)) gR aC bL bS sT)) (n mod 3))
      else buf ! n)" for n
    unfolding res_def using Galaxy_loop_nth[of 0 random gR aC bL bS sT 0 setHSL count buf buf n]
    by simp
  have d: "(3 * i) div 3 = i" "(3 * i + 1) div 3 = i" "(3 * i + 2) div 3 = i"
    and m: "(3 * i) mod 3 = 0" "(3 * i + 1) mod 3 = 1" "(3 * i + 2) mod 3 = 2"
    by arith+
  obtain x y z where p: "fst (Galaxy_position random (Galaxy_calls random gR aC bL bS sT i)
                                gR aC bL bS sT) = (x, y, z)"
    by (metis prod.exhaust)
  have "fst res ! (3 * i) = f32 x" "fst res ! (3 * i + 1) = f32 y" "fst res ! (3 * i + 2) = f32 z"
    unfolding nth d m using len assms by (simp_all add: p coordinate_def)
  then show ?thesis unfolding gen p by simp
qed

lemma Galaxy_position_nonfinite:
  assumes "bulgeSize \<le> 0" and "0 \<le> galaxyRadius" and "0 \<le> random (k + 1)"
  shows "\<not> random (k + 1) * galaxyRadius < bulgeSize
    \<and> spiralAngle (random k * pi * 2) (random (k + 1) * galaxyRadius) armCount bulgeSize
          spiralTightness = None
    \<and> (\<exists>y k'. Galaxy_position random k galaxyRadius armCount barLength bulgeSize
                 spiralTightness = ((None, y, None), k'))"
proof -
  define radius where "radius = random (k + 1) * galaxyRadius"
  have r0: "0 \<le> radius" unfolding radius_def using assms by simp
  then have nb: "\<not> radius < bulgeSize" using assms(1) by simp
  have "radius / bulgeSize \<le> 0" using r0 assms(1) by (simp add: divide_le_0_iff)
  then have "js_div radius bulgeSize = None
      \<or> (\<exists>ratio. js_div radius bulgeSize = Some ratio \<and> js_log ratio = None)"
    by (simp add: js_div_def js_log_def dbl_def)
  then have sa: "spiralAngle (random k * pi * 2) radius armCount bulgeSize spiralTightness = None"
    by (auto simp: spiralAngle_def Let_def split: option.splits)
  have "\<exists>y. spiral_position random (k + 2) (random k * pi * 2) radius galaxyRadius armCount
            barLength bulgeSize spiralTightness = (None, y, None)"
    by (simp add: spiral_position_def sa Let_def)
  then obtain y where "spiral_position random (k + 2) (random k * pi * 2) radius galaxyRadius
            armCount barLength bulgeSize spiralTightness = (None, y, None)" by blast
  with nb have "\<exists>y k'. Galaxy_position random k galaxyRadius armCount barLength bulgeSize
                 spiralTightness = ((None, y, None), k')"
    by (simp add: Galaxy_position_def Let_def radius_def)
  with nb sa show ?thesis unfolding radius_def by blast
qed

text \<open>
  Claim C4, as amended. For count \<open>0\<close> each particle-set generator (galaxy field,
  wave-particle cloud, Great Wave particle cloud) returns an empty particle set, with empty
  position and colour buffers (and no connection), and raises nothing; for a negative
  count each raises the \<open>RangeError\<close> of the buffer allocation.
\<close>

theorem generators_nonpositive_count:
  assumes "count \<le> 0"
  shows "Galaxy_generate setHSL random count galaxyRadius armCount barLength bulgeSize
             spiralTightness
           = (if count = 0 then Inr \<lparr>positions = [], colors = []\<rparr> else Inl RangeError)
    \<and> WaveParticles_generate setHSL random hue count connectionDistance maxConnections
           = (if count = 0 then Inr \<lparr>positions = [], colors = [], connections = []\<rparr>
              else Inl RangeError)
    \<and> GreatWave_generate setHSL random galaxyRadius count
           = (if count = 0 then Inr \<lparr>positions = [], colors = []\<rparr> else Inl RangeError)"
proof (cases "count = 0")
  case True
  then show ?thesis
    by (simp add: Galaxy_generate_def WaveParticles_generate_def GreatWave_generate_def
        new_Float32Array_def Galaxy_loop.simps WaveParticles_loop.simps GreatWave_loop.simps
        connect_outer.simps)
next
  case False
  with assms have "count * 3 < 0" by simp
  then show ?thesis using False
    by (simp add: Galaxy_generate_def WaveParticles_generate_def GreatWave_generate_def
        new_Float32Array_def)
qed

theorem generators_nonpositive_count_witness:
  "(0::int) \<le> 0
   \<and> Galaxy_generate (\<lambda>h s l. (h, s, l)) (\<lambda>k. 1 / 2) 0 25 4 8 3 (1 / 2)
       = Inr \<lparr>positions = [], colors = []\<rparr>
   \<and> WaveParticles_generate (\<lambda>h s l. (h, s, l)) (\<lambda>k. 1 / 2) (2 / 3) 0 8 500
       = Inr \<lparr>positions = [], colors = [], connections = []\<rparr>
   \<and> GreatWave_generate (\<lambda>h s l. (h, s, l)) (\<lambda>k. 1 / 2) 25 0
       = Inr \<lparr>positions = [], colors = []\<rparr>"
  using generators_nonpositive_count[of 0 "\<lambda>h s l. (h, s, l)" "\<lambda>k. 1 / 2" 25 4 8 3 "1 / 2"
      "2 / 3" 8 500]
  by simp

text \<open>
  Claim C4 as stated fails for a negative count: with count \<open>-1\<close> each generator raises
  a \<open>RangeError\<close> instead of returning an empty particle set.
\<close>

theorem generators_negative_count_counterexample:
  "Galaxy_generate (\<lambda>h s l. (h, s, l)) (\<lambda>k. 1 / 2) (- 1) 25 4 8 3 (1 / 2) = Inl RangeError
   \<and> WaveParticles_generate (\<lambda>h s l. (h, s, l)) (\<lambda>k. 1 / 2) (2 / 3) (- 1) 8 500
       = Inl RangeError
   \<and> GreatWave_generate (\<lambda>h s l. (h, s, l)) (\<lambda>k. 1 / 2) 25 (- 1) = Inl RangeError"
  by (simp add: Galaxy_generate_def WaveParticles_generate_def GreatWave_generate_def
      new_Float32Array_def)

text \<open>
  Claim C5, as amended. For every galaxy generation input with \<open>bulgeSize \<le> 0\<close> and
  \<open>galaxyRadius \<ge> 0\<close> (random numbers in \<open>[0, 1)\<close>): no particle takes the bulge branch;
  the logarithm is taken of \<open>radius / bulgeSize\<close> with \<open>bulgeSize\<close> as given, nothing is
  substituted, and the spiral angle of every particle is not finite, and neither are the
  particle's \<open>x\<close> and \<open>z\<close> coordinates in the generated buffer.
\<close>

theorem Galaxy_nonpositive_bulgeSize:
  assumes "bulgeSize \<le> 0" and "0 \<le> galaxyRadius"
    and "\<forall>n. 0 \<le> random n \<and> random n < 1" and "int i < count"
  shows "(let k = Galaxy_calls random galaxyRadius armCount barLength bulgeSize spiralTightness i;
              angle = random k * pi * 2;
              radius = random (k + 1) * galaxyRadius
          in \<not> radius < bulgeSize
             \<and> spiralAngle angle radius armCount bulgeSize spiralTightness = None)
    \<and> (\<exists>out. Galaxy_generate setHSL random count galaxyRadius armCount barLength bulgeSize
                 spiralTightness = Inr out
            \<and> positions out ! (3 * i) = None \<and> positions out ! (3 * i + 2) = None)"
proof -
  let ?k = "Galaxy_calls random galaxyRadius armCount barLength bulgeSize spiralTightness i"
  from assms(3) have "0 \<le> random (?k + 1)" by blast
  from Galaxy_position_nonfinite[where random = random and k = "?k" and armCount = armCount
      and spiralTightness = spiralTightness and barLength = barLength, OF assms(1,2) this]
  obtain y k' where
    a: "\<not> random (?k + 1) * galaxyRadius < bulgeSize"
      "spiralAngle (random ?k * pi * 2) (random (?k + 1) * galaxyRadius) armCount bulgeSize
          spiralTightness = None"
    and p: "Galaxy_position random ?k galaxyRadius armCount barLength bulgeSize spiralTightness
              = ((None, y, None), k')"
    by blast
  from Galaxy_generate_particle[OF assms(4), of setHSL random galaxyRadius armCount barLength
      bulgeSize spiralTightness] p
  have "\<exists>out. Galaxy_generate setHSL random count galaxyRadius armCount barLength bulgeSize
                 spiralTightness = Inr out
            \<and> positions out ! (3 * i) = None \<and> positions out ! (3 * i + 2) = None"
    by (auto simp: f32_None)
  with a show ?thesis by (simp add: Let_def)
qed

theorem Galaxy_nonpositive_bulgeSize_witness:
  "(0::real) \<le> 0 \<and> (0::real) \<le> 25 \<and> (\<forall>n. 0 \<le> (\<lambda>k. 1 / 2 :: real) n \<and> (\<lambda>k. 1 / 2 :: real) n < 1)
   \<and> int 0 < 1
   \<and> \<not> (1 / 2 * 25 < (0::real))
   \<and> spiralAngle (1 / 2 * pi * 2) (1 / 2 * 25) 4 0 (1 / 2) = None
   \<and> (\<exists>out. Galaxy_generate (\<lambda>h s l. (h, s, l)) (\<lambda>k. 1 / 2) 1 25 4 8 0 (1 / 2) = Inr out
          \<and> positions out ! (3 * 0) = None \<and> positions out ! (3 * 0 + 2) = None)"
  using Galaxy_nonpositive_bulgeSize[of 0 25 "\<lambda>k. 1 / 2" 0 1 4 8 "1 / 2" "\<lambda>h s l. (h, s, l)"]
  by (simp add: Let_def)

text \<open>
  Claim C5 as stated fails: with \<open>bulgeSize = 0\<close> (one particle, radius \<open>25\<close>, four arms,
  every random number \<open>1/2\<close>) the generated \<open>x\<close> and \<open>z\<close> coordinates are not finite.
  And with a negative \<open>galaxyRadius\<close> the bulge branch can be taken: for
  \<open>galaxyRadius = -5\<close> and \<open>bulgeSize = -1\<close> the drawn radius \<open>-2.5\<close> is below \<open>bulgeSize\<close>, and
  the particle is placed by the bulge branch (eight random numbers drawn, all coordinates
  finite).
\<close>

theorem Galaxy_zero_bulgeSize_counterexample:
  "Galaxy_generate (\<lambda>h s l. (h, s, l)) (\<lambda>k. 1 / 2) 1 25 4 8 0 (1 / 2)
     = Inr \<lparr>positions = [None, Some 0, None],
            colors = [Some (3 / 5), Some (3 / 4), Some (13 / 20)]\<rparr>
   \<and> (1 / 2 * (- 5) < (- 1 :: real))
   \<and> Galaxy_position (\<lambda>k. 1 / 2) 0 (- 5) 4 8 (- 1) (1 / 2)
       = ((Some (13 / 8), Some 0, Some 0), 8)"
  by (simp add: Galaxy_generate_def new_Float32Array_def Galaxy_loop.simps Galaxy_position_def
      spiral_position_def spiralAngle_def js_div_def js_log_def Galaxy_color_def Let_def
      numeral_3_eq_3 bulge_position_def js_acos_def dbl_Some dbl_pi f32_Some f32_None)

text \<open>
  Claim C7, as amended. For every particle \<open>i\<close> of a particle set the galaxy generator
  returns, with any count, \<open>0 \<le> galaxyRadius \<le> 10^6\<close>, \<open>|armCount| \<ge> 10^-100\<close>, any
  \<open>barLength\<close>, \<open>bulgeSize \<ge> 10^-100\<close>, \<open>|spiralTightness| \<le> 10^100\<close> and random numbers in
  \<open>[0, 1)\<close> (so that no division is by zero and nothing overflows): its stored \<open>x\<close> and \<open>z\<close>
  are finite, its planar distance \<open>sqrt(x\<^sup>2 + z\<^sup>2)\<close> from the origin is at most
  \<open>galaxyRadius + 0.3\<close>, and at most \<open>bulgeSize + 0.3\<close> when the particle is generated by the
  bulge branch (its drawn radius is below \<open>bulgeSize\<close>).
\<close>

theorem Galaxy_planar_distance:
  assumes "0 \<le> galaxyRadius" and "galaxyRadius \<le> 10 ^ 6" and "1 / 10 ^ 100 \<le> bulgeSize"
    and "1 / 10 ^ 100 \<le> \<bar>armCount\<bar>" and "\<bar>spiralTightness\<bar> \<le> 10 ^ 100"
    and "\<forall>n. 0 \<le> random n \<and> random n < 1" and "int i < count"
    and "Galaxy_generate setHSL random count galaxyRadius armCount barLength bulgeSize
           spiralTightness = Inr out"
  shows "\<exists>x z. positions out ! (3 * i) = Some x \<and> positions out ! (3 * i + 2) = Some z
            \<and> sqrt (x\<^sup>2 + z\<^sup>2) \<le> galaxyRadius + 0.3
            \<and> (random (Galaxy_calls random galaxyRadius armCount barLength bulgeSize
                          spiralTightness i + 1) * galaxyRadius < bulgeSize
                 \<longrightarrow> sqrt (x\<^sup>2 + z\<^sup>2) \<le> bulgeSize + 0.3)"
proof -
  let ?k = "Galaxy_calls random galaxyRadius armCount barLength bulgeSize spiralTightness i"
  from Galaxy_position_bound[OF assms(1-6), of ?k barLength]
  obtain x y z k' where
    p: "Galaxy_position random ?k galaxyRadius armCount barLength bulgeSize spiralTightness
          = ((Some x, Some y, Some z), k')"
    and b: "sqrt (x\<^sup>2 + z\<^sup>2) \<le> galaxyRadius + 0.3"
      "random (?k + 1) * galaxyRadius < bulgeSize \<longrightarrow> sqrt (x\<^sup>2 + z\<^sup>2) \<le> bulgeSize + 0.3"
    by blast
  have "\<bar>x\<bar> \<le> sqrt (x\<^sup>2 + z\<^sup>2)" "\<bar>z\<bar> \<le> sqrt (x\<^sup>2 + z\<^sup>2)" by simp_all
  with b(1) assms(2) have "\<bar>x\<bar> \<le> 10 ^ 6 + 3 / 10" "\<bar>z\<bar> \<le> 10 ^ 6 + 3 / 10" by linarith+
  then have "\<bar>x\<bar> \<le> 3 * 10 ^ 38" "\<bar>z\<bar> \<le> 3 * 10 ^ 38" by simp_all
  then have st: "f32 (Some x) = Some x" "f32 (Some z) = Some z" by (simp_all add: f32_Some)
  from Galaxy_generate_particle[OF assms(7), of setHSL random galaxyRadius armCount barLength
      bulgeSize spiralTightness] p assms(8)
  have "positions out ! (3 * i) = Some x" "positions out ! (3 * i + 2) = Some z"
    by (auto simp: st)
  with b show ?thesis by blast
qed

theorem Galaxy_planar_distance_witness:
  "(0::real) \<le> 25 \<and> (25::real) \<le> 10 ^ 6 \<and> (1::real) / 10 ^ 100 \<le> 3
   \<and> (1::real) / 10 ^ 100 \<le> \<bar>4\<bar> \<and> \<bar>1 / 2 :: real\<bar> \<le> 10 ^ 100
   \<and> (\<forall>n. 0 \<le> (\<lambda>k. if k = 1 then 1 / 10 else 1 / 2 :: real) n
          \<and> (\<lambda>k. if k = 1 then 1 / 10 else 1 / 2 :: real) n < 1)
   \<and> int 0 < 1
   \<and> Galaxy_generate (\<lambda>h s l. (h, s, l)) (\<lambda>k. if k = 1 then 1 / 10 else 1 / 2) 1 25 4 8 3
        (1 / 2)
      = Inr \<lparr>positions = [Some (- (13 / 8)), Some 0, Some 0],
             colors = [Some (1 / 8), Some (4 / 5), Some (3 / 4)]\<rparr>
   \<and> (1 / 10 * 25 < (3::real))
   \<and> (\<exists>x z. [Some (- (13 / 8)), Some 0, Some (0::real)] ! (3 * 0) = Some x
          \<and> [Some (- (13 / 8)), Some 0, Some (0::real)] ! (3 * 0 + 2) = Some z
          \<and> sqrt (x\<^sup>2 + z\<^sup>2) \<le> 25 + 0.3 \<and> sqrt (x\<^sup>2 + z\<^sup>2) \<le> 3 + 0.3)"
proof -
  have sq: "sqrt (169 / 64) = (13 / 8 :: real)"
    by (rule real_sqrt_unique) (simp_all add: power2_eq_square)
  have g: "Galaxy_generate (\<lambda>h s l. (h, s, l)) (\<lambda>k. if k = 1 then 1 / 10 else 1 / 2) 1 25 4 8 3
        (1 / 2)
      = Inr \<lparr>positions = [Some (- (13 / 8)), Some 0, Some 0],
             colors = [Some (1 / 8), Some (4 / 5), Some (3 / 4)]\<rparr>"
    by (simp add: Galaxy_generate_def new_Float32Array_def Galaxy_loop.simps Galaxy_position_def
      bulge_position_def js_acos_def Galaxy_color_def Let_def numeral_3_eq_3 sq
      dbl_Some f32_Some f32_None)
  show ?thesis
    using Galaxy_planar_distance[of 25 3 4 "1 / 2" "\<lambda>k. if k = 1 then 1 / 10 else 1 / 2" 0 1
        "\<lambda>h s l. (h, s, l)" 8, OF _ _ _ _ _ _ _ g] g
    by simp
qed

text \<open>
  Claim C7 as stated fails for a negative \<open>galaxyRadius\<close>: with \<open>galaxyRadius = -10\<close> and
  \<open>bulgeSize = 3\<close> the one particle generated (by the bulge branch) lies at planar distance
  \<open>5.85\<close>, above \<open>galaxyRadius + 0.3\<close> and above \<open>bulgeSize + 0.3\<close>. It also fails for
  \<open>armCount = 0\<close>: the spiral-branch particle generated with \<open>galaxyRadius = 25\<close> and
  \<open>bulgeSize = 3\<close> has no finite \<open>x\<close> and \<open>z\<close>, so no distance that could meet a bound.
  And it fails where a result overflows: with \<open>galaxyRadius = bulgeSize = 10^39\<close> the bulge
  branch computes \<open>x = -5.85 * 10^38\<close>, which the position buffer stores as an infinity;
  with \<open>bulgeSize = 10^-320\<close> the quotient \<open>radius / bulgeSize\<close> overflows and the spiral angle
  is not finite.
\<close>

theorem Galaxy_negative_radius_counterexample:
  "Galaxy_generate (\<lambda>h s l. (h, s, l)) (\<lambda>k. if k = 1 then 9 / 10 else 1 / 2) 1 (- 10) 4 8 3
       (1 / 2)
     = Inr \<lparr>positions = [Some (117 / 20), Some 0, Some 0],
            colors = [Some (1 / 8), Some (4 / 5), Some (3 / 4)]\<rparr>
   \<and> \<not> sqrt ((117 / 20)\<^sup>2 + 0\<^sup>2) \<le> (- 10 :: real) + 0.3
   \<and> \<not> sqrt ((117 / 20)\<^sup>2 + 0\<^sup>2) \<le> (3 :: real) + 0.3
   \<and> Galaxy_generate (\<lambda>h s l. (h, s, l)) (\<lambda>k. 1 / 2) 1 25 0 8 3 (1 / 2)
     = Inr \<lparr>positions = [None, Some 0, None],
            colors = [Some (3 / 5), Some (3 / 4), Some (13 / 20)]\<rparr>
   \<and> fst (Galaxy_position (\<lambda>k. if k = 1 then 9 / 10 else 1 / 2) 0 (10 ^ 39) 4 8 (10 ^ 39)
            (1 / 2))
     = (Some (- (117 / 20 * 10 ^ 38)), Some 0, Some 0)
   \<and> f32 (Some (- (117 / 20 * 10 ^ 38))) = None
   \<and> spiralAngle (1 / 2 * pi * 2) (1 / 2 * 25) 4 (1 / 10 ^ 320) (1 / 2) = None"
proof -
  have sq: "sqrt (13689 / 400) = (117 / 20 :: real)"
    by (rule real_sqrt_unique) (simp_all add: power2_eq_square)
  have a: "Galaxy_generate (\<lambda>h s l. (h, s, l)) (\<lambda>k. if k = 1 then 9 / 10 else 1 / 2) 1 (- 10) 4 8 3
       (1 / 2)
     = Inr \<lparr>positions = [Some (117 / 20), Some 0, Some 0],
            colors = [Some (1 / 8), Some (4 / 5), Some (3 / 4)]\<rparr>"
    by (simp add: Galaxy_generate_def new_Float32Array_def Galaxy_loop.simps Galaxy_position_def
      bulge_position_def js_acos_def Galaxy_color_def Let_def numeral_3_eq_3 sq
      dbl_Some f32_Some f32_None)
  have b: "\<not> sqrt ((117 / 20)\<^sup>2 + 0\<^sup>2) \<le> (- 10 :: real) + 0.3"
    "\<not> sqrt ((117 / 20)\<^sup>2 + 0\<^sup>2) \<le> (3 :: real) + 0.3"
    by (simp_all add: power2_eq_square sq)
  have c: "Galaxy_generate (\<lambda>h s l. (h, s, l)) (\<lambda>k. 1 / 2) 1 25 0 8 3 (1 / 2)
     = Inr \<lparr>positions = [None, Some 0, None],
            colors = [Some (3 / 5), Some (3 / 4), Some (13 / 20)]\<rparr>"
    by (simp add: Galaxy_generate_def new_Float32Array_def Galaxy_loop.simps Galaxy_position_def
      Galaxy_color_def js_div_def Let_def numeral_3_eq_3 spiral_position_def spiralAngle_def
      dbl_Some f32_Some f32_None)
  have d: "fst (Galaxy_position (\<lambda>k. if k = 1 then 9 / 10 else 1 / 2) 0 (10 ^ 39) 4 8 (10 ^ 39)
            (1 / 2))
     = (Some (- (117 / 20 * 10 ^ 38)), Some 0, Some 0)"
    by (simp add: Galaxy_position_def bulge_position_def js_acos_def Let_def)
  have e: "f32 (Some (- (117 / 20 * 10 ^ 38))) = None"
    by (rule f32_None_big) simp
  have f: "spiralAngle (1 / 2 * pi * 2) (1 / 2 * 25) 4 (1 / 10 ^ 320) (1 / 2) = None"
    by (simp add: spiralAngle_def js_div_def Let_def dbl_Some dbl_pi dbl_None)
  from a b c d e f show ?thesis by blast
qed

lemma WaveParticles_loop_particlePositions:
  "length (snd (snd (WaveParticles_loop setHSL random hue count i k pb cb pp)))
     = length pp + nat (count - int i)"
proof (induction setHSL random hue count i k pb cb pp rule: WaveParticles_loop.induct)
  case (1 setHSL random hue count i k pb cb pp)
  show ?case
  proof (cases "int i < count")
    case False
    then show ?thesis by (subst WaveParticles_loop.simps) simp
  next
    case True
    obtain r g b where c: "setHSL (hue + (random (k + 3) - 0.5) * 0.1) 0.8
                      (0.3 + random (k + 4) * 0.2) = (r, g, b)"
      by (metis prod.exhaust)
    have eq: "WaveParticles_loop setHSL random hue count i k pb cb pp =
        WaveParticles_loop setHSL random hue count (i + 1) (k + 5)
          (pb[i * 3 := Some ((random k - 0.5) * 100),
              i * 3 + 1 := Some ((random (k + 1) - 0.5) * 30),
              i * 3 + 2 := Some ((random (k + 2) - 0.5) * 100)])
          (cb[i * 3 := Some r, i * 3 + 1 := Some g, i * 3 + 2 := Some b])
          (pp @ [((random k - 0.5) * 100, (random (k + 1) - 0.5) * 30,
                  (random (k + 2) - 0.5) * 100)])"
      by (subst WaveParticles_loop.simps) (simp only: True if_True Let_def c prod.case)
    show ?thesis
      unfolding eq using "1.IH"[OF True refl refl refl c[symmetric] refl] True by simp
  qed
qed

lemma WaveParticles_generate_connections:
  assumes "0 \<le> count"
  shows "\<exists>out pp. WaveParticles_generate setHSL random hue count d m = Inr out
           \<and> length pp = nat count \<and> connections out = build_connections pp d m"
proof -
  define buf where "buf = replicate (nat (count * 3)) (Some (0::real))"
  have alloc: "new_Float32Array (count * 3) = Inr buf"
    using assms by (simp add: new_Float32Array_def buf_def)
  obtain p c pp where l: "WaveParticles_loop setHSL random hue count 0 0 buf buf [] = (p, c, pp)"
    by (metis prod.exhaust)
  from WaveParticles_loop_particlePositions[of setHSL random hue count 0 0 buf buf "[]"]
  have len: "length pp = nat count" by (simp add: l)
  have "WaveParticles_generate setHSL random hue count d m
      = Inr \<lparr>positions = p, colors = c, connections = build_connections pp d m\<rparr>"
    by (simp add: WaveParticles_generate_def alloc l build_connections_def len)
  with len show ?thesis by auto
qed

end
